theory Spec2Isabelle
  imports Main "HOL-Library.Word"
begin

section \<open>The state processor of go-abey (core/state\_processor.go)\<close>

text \<open>
  The file embeds the three functions of \<^verbatim>\<open>core/state_processor.go\<close>:
  \<^verbatim>\<open>Process\<close>, \<^verbatim>\<open>ApplyTransaction\<close> and \<^verbatim>\<open>ReadTransaction\<close>.
  Go mutates the state database, the gas pool, the used-gas counter and the fee
  accumulator through pointers; here every function takes them as arguments and
  returns their final values beside its result, on the error paths too.
  An \<^verbatim>\<open>error\<close> return is a sum: \<open>Inl err\<close> is a non-nil error.
  The metrics timers of \<^verbatim>\<open>Process\<close> do not influence any result and are left out.
\<close>

subsection \<open>Plain data\<close>

type_synonym address = nat
type_synonym hash = nat
type_synonym uint64 = "64 word"
type_synonym bytes = "8 word list"
type_synonym error = string
type_synonym Bloom = nat

text \<open>
  Modelled from the spec: the Gas Pool (core/gaspool.go is not among the sources) is
  a single unsigned 64-bit counter; \<^verbatim>\<open>new(GasPool)\<close> is zero and \<^verbatim>\<open>AddGas\<close>
  increases the capacity by its argument.
\<close>

type_synonym GasPool = uint64

definition AddGas :: "GasPool \<Rightarrow> uint64 \<Rightarrow> GasPool" where
  "AddGas gp amount = gp + amount"

definition MaxUint64 :: uint64 where
  "MaxUint64 = 18446744073709551615"

text \<open>
  Modelled from the spec: the Message type (core/types is not among the sources) is
  the decoded, sender-resolved form of a transaction. Its fields are named after the
  accessors that the state processor calls; a nil \<^verbatim>\<open>*common.Address\<close> or
  \<^verbatim>\<open>*big.Int\<close> is \<open>None\<close>. \<^verbatim>\<open>NewMessage\<close> stores its ten arguments, in the
  order of the call in \<^verbatim>\<open>ReadTransaction\<close>.
\<close>

record Message =
  From :: address
  To :: "address option"
  Payment :: address
  Nonce :: uint64
  Value :: int
  Fee :: "int option"
  Gas :: uint64
  GasPrice :: int
  Data :: bytes
  CheckNonce :: bool

definition NewMessage ::
  "address \<Rightarrow> address option \<Rightarrow> address \<Rightarrow> uint64 \<Rightarrow> int \<Rightarrow> int option \<Rightarrow> uint64 \<Rightarrow> int
     \<Rightarrow> bytes \<Rightarrow> bool \<Rightarrow> Message" where
  "NewMessage from to payment nonce amount fee gasLimit gasPrice data checkNonce =
     \<lparr>From = from, To = to, Payment = payment, Nonce = nonce, Value = amount, Fee = fee,
      Gas = gasLimit, GasPrice = gasPrice, Data = data, CheckNonce = checkNonce\<rparr>"

text \<open>
  Modelled from the spec: a block is a header (height, gas limit) with an ordered
  sequence of transactions and a hash. \<^verbatim>\<open>block.Number()\<close> and \<^verbatim>\<open>block.GasLimit()\<close>
  read the header: they are \<open>Number (header block)\<close> and \<open>GasLimit (header block)\<close>.
\<close>

record Header =
  Number :: int
  GasLimit :: uint64

record 't Block =
  header :: Header
  transactions :: "'t list"
  blockhash :: hash

record Log =
  LogAddress :: address
  LogTopics :: "hash list"
  LogData :: bytes

text \<open>
  Modelled from the spec: the bytecode executor's result carries the return data, the
  gas used and whether the inner call reverted (\<^verbatim>\<open>result.Failed()\<close>).
\<close>

record ExecutionResult =
  UsedGas :: uint64
  Failed :: bool
  ReturnData :: bytes

text \<open>
  Modelled from the spec: a Receipt holds the transaction hash, the cumulative gas
  used, the success flag, the logs and their bloom filter, the contract-creation
  address, and the block hash, block number and index within the block.
  \<^verbatim>\<open>NewReceipt(root, failed, cumulativeGasUsed)\<close> fills the state root, the success
  flag (success is "not failed") and the cumulative gas; every other field has Go's zero
  value.
\<close>

record Receipt =
  PostState :: bytes
  Success :: bool
  CumulativeGasUsed :: uint64
  Bloom :: Bloom
  Logs :: "Log list"
  TxHash :: hash
  ContractAddress :: address
  GasUsed :: uint64
  BlockHash :: hash
  BlockNumber :: int
  TransactionIndex :: uint64

definition NewReceipt :: "bytes \<Rightarrow> bool \<Rightarrow> uint64 \<Rightarrow> Receipt" where
  "NewReceipt root failed cumulativeGasUsed =
     \<lparr>PostState = root, Success = (\<not> failed), CumulativeGasUsed = cumulativeGasUsed,
      Bloom = 0, Logs = [], TxHash = 0, ContractAddress = 0, GasUsed = 0, BlockHash = 0,
      BlockNumber = 0, TransactionIndex = 0\<rparr>"

text \<open>
  Modelled from the spec: the Execution Context Builder is a pure function of the
  message, the header and the chain context; the context captures the sender as
  \<open>Origin\<close> and the gas price, and keeps the header and the chain for the executor.
  \<^verbatim>\<open>vm.NewEVM\<close> bundles the context with the chain configuration and the
  execution flags; the state database it points to is passed beside it.
\<close>

record 'b Context =
  Origin :: address
  CtxGasPrice :: int
  CtxHeader :: Header
  CtxChain :: 'b

definition NewEVMContext :: "Message \<Rightarrow> Header \<Rightarrow> 'b \<Rightarrow> 'b Context" where
  "NewEVMContext msg hdr chain =
     \<lparr>Origin = From msg, CtxGasPrice = GasPrice msg, CtxHeader = hdr, CtxChain = chain\<rparr>"

record ('c, 'b, 'v) EVM =
  Context :: "'b Context"
  chainConfig :: 'c
  vmConfig :: 'v

definition NewEVM :: "'b Context \<Rightarrow> 'c \<Rightarrow> 'v \<Rightarrow> ('c, 'b, 'v) EVM" where
  "NewEVM ctx cconfig vconfig = \<lparr>Context = ctx, chainConfig = cconfig, vmConfig = vconfig\<rparr>"

subsection \<open>External collaborators\<close>

text \<open>
  The functions that the state processor calls in other packages are parameters,
  collected in one record: signature recovery (\<^verbatim>\<open>tx.AsMessage(types.MakeSigner(config,
  header.Number))\<close>, one function of the configuration, the height and the transaction),
  the two deny-lists, the hard-fork predicate, the two hash derivations and the nonce of
  a transaction, the bytecode executor \<^verbatim>\<open>ApplyMessage\<close> (it returns the gas pool and
  the state database as it leaves them, also when it fails), the operations of the state
  database, the bloom filter and the contract address derivation.
  The type variables are: \<open>'s\<close> the state database, \<open>'t\<close> the transaction, \<open>'c\<close> the
  chain configuration, \<open>'b\<close> the chain context, \<open>'v\<close> the execution flags.
\<close>

record ('s, 't, 'c, 'b, 'v) Extern =
  AsMessage :: "'c \<Rightarrow> int \<Rightarrow> 't \<Rightarrow> error + Message"
  ForbidAddress :: "address \<Rightarrow> error option"
  ForbidAddress2 :: "address \<Rightarrow> error option"
  IsTIP10 :: "'c \<Rightarrow> int \<Rightarrow> bool"
  Hash :: "'t \<Rightarrow> hash"
  HashOld :: "'t \<Rightarrow> hash"
  TxNonce :: "'t \<Rightarrow> uint64"
  ApplyMessage :: "('c, 'b, 'v) EVM \<Rightarrow> Message \<Rightarrow> GasPool \<Rightarrow> 's
                     \<Rightarrow> (error + ExecutionResult) \<times> GasPool \<times> 's"
  Prepare :: "hash \<Rightarrow> hash \<Rightarrow> int \<Rightarrow> 's \<Rightarrow> 's"
  Finalise :: "bool \<Rightarrow> 's \<Rightarrow> 's"
  GetLogs :: "'s \<Rightarrow> hash \<Rightarrow> Log list"
  StateBlockHash :: "'s \<Rightarrow> hash"
  TxIndex :: "'s \<Rightarrow> int"
  CreateBloom :: "Receipt list \<Rightarrow> Bloom"
  CreateAddress :: "address \<Rightarrow> uint64 \<Rightarrow> address"

text \<open>
  The consensus engine's \<^verbatim>\<open>Finalize\<close>: it returns the reward summary or an error,
  and the state database as it leaves it. The block it also returns is discarded by
  \<^verbatim>\<open>Process\<close>.
\<close>

type_synonym ('s, 't, 'b, 'r) Engine =
  "'b \<Rightarrow> Header \<Rightarrow> 's \<Rightarrow> 't list \<Rightarrow> Receipt list \<Rightarrow> int \<Rightarrow> (error + 'r) \<times> 's"

record ('s, 't, 'c, 'b, 'r) StateProcessor =
  config :: 'c
  bc :: 'b
  engine :: "('s, 't, 'b, 'r) Engine"

subsection \<open>ApplyTransaction\<close>

text \<open>
  The result is the receipt or the error, then the gas pool, the state database, the
  used-gas counter and the fee accumulator as the call leaves them.
  \<^verbatim>\<open>uint(statedb.TxIndex())\<close> is the conversion of a 64-bit int to a 64-bit uint.
\<close>

definition ApplyTransaction ::
  "('s, 't, 'c, 'b, 'v) Extern \<Rightarrow> 'c \<Rightarrow> 'b \<Rightarrow> GasPool \<Rightarrow> 's \<Rightarrow> Header \<Rightarrow> 't \<Rightarrow> uint64 \<Rightarrow> int \<Rightarrow> 'v
     \<Rightarrow> (error + Receipt) \<times> GasPool \<times> 's \<times> uint64 \<times> int" where
  "ApplyTransaction X cconfig chain gp statedb hdr tx usedGas feeAmount cfg =
     (case AsMessage X cconfig (Number hdr) tx of
        Inl err \<Rightarrow> (Inl err, gp, statedb, usedGas, feeAmount)
      | Inr msg \<Rightarrow>
          (case (if Number hdr > 6638000
                 then (case ForbidAddress X (From msg) of
                         Some err \<Rightarrow> Some err
                       | None \<Rightarrow>
                           if Number hdr > 24642000 then ForbidAddress2 X (From msg)
                           else None)
                 else None) of
             Some err \<Rightarrow> (Inl err, gp, statedb, usedGas, feeAmount)
           | None \<Rightarrow>
               (let ctx = NewEVMContext msg hdr chain;
                    vmenv = NewEVM ctx cconfig cfg
                in case ApplyMessage X vmenv msg gp statedb of
                     (Inl err, gp1, statedb1) \<Rightarrow> (Inl err, gp1, statedb1, usedGas, feeAmount)
                   | (Inr result, gp1, statedb1) \<Rightarrow>
                       (let root = [];
                            statedb2 = Finalise X True statedb1;
                            usedGas1 = usedGas + UsedGas result;
                            gasFee = uint (UsedGas result) * GasPrice msg;
                            feeAmount1 = gasFee + feeAmount;
                            feeAmount2 = (case Fee msg of
                                            Some fee \<Rightarrow> fee + feeAmount1
                                          | None \<Rightarrow> feeAmount1);
                            txhash = (if IsTIP10 X cconfig (Number hdr) then Hash X tx
                                      else HashOld X tx);
                            receipt1 = (NewReceipt root (Failed result) usedGas1)
                                         \<lparr>TxHash := txhash, GasUsed := UsedGas result\<rparr>;
                            receipt2 = (if To msg = None
                                        then receipt1\<lparr>ContractAddress :=
                                               CreateAddress X (Origin (Context vmenv)) (TxNonce X tx)\<rparr>
                                        else receipt1);
                            receipt3 = receipt2\<lparr>Logs := GetLogs X statedb2 txhash\<rparr>;
                            receipt4 = receipt3\<lparr>Bloom := CreateBloom X [receipt3]\<rparr>;
                            receipt5 = receipt4\<lparr>BlockHash := StateBlockHash X statedb2,
                                                 BlockNumber := Number hdr,
                                                 TransactionIndex := word_of_int (TxIndex X statedb2)\<rparr>
                        in (Inr receipt5, gp1, statedb2, usedGas1, feeAmount2)))))"

subsection \<open>ReadTransaction\<close>

text \<open>
  The result is the pair of return data and gas used, or the error, then the state
  database as the call leaves it.
\<close>

definition ReadTransaction ::
  "('s, 't, 'c, 'b, 'v) Extern \<Rightarrow> 'c \<Rightarrow> 'b \<Rightarrow> 's \<Rightarrow> Header \<Rightarrow> 't \<Rightarrow> 'v
     \<Rightarrow> (error + bytes \<times> uint64) \<times> 's" where
  "ReadTransaction X cconfig chain statedb hdr tx cfg =
     (case AsMessage X cconfig (Number hdr) tx of
        Inl err \<Rightarrow> (Inl err, statedb)
      | Inr msg \<Rightarrow>
          (let msgCopy = NewMessage (From msg) (To msg) (Payment msg) 0 (Value msg) (Fee msg)
                           (Gas msg) (GasPrice msg) (Data msg) False
           in case (if Number hdr > 6638000 then ForbidAddress X (From msgCopy) else None) of
                Some err \<Rightarrow> (Inl err, statedb)
              | None \<Rightarrow>
                  (let ctx = NewEVMContext msgCopy hdr chain;
                       vmenv = NewEVM ctx cconfig cfg;
                       gp = AddGas 0 MaxUint64
                   in case ApplyMessage X vmenv msg gp statedb of
                        (Inl err, gp1, statedb1) \<Rightarrow> (Inl err, statedb1)
                      | (Inr result, gp1, statedb1) \<Rightarrow>
                          (Inr (ReturnData result, UsedGas result), statedb1))))"

subsection \<open>Process\<close>

text \<open>
  The variables of the loop of \<^verbatim>\<open>Process\<close>: the gas pool, the state database, the
  used-gas counter, the fee accumulator, the receipts and the logs so far.
\<close>

record 's LoopState =
  l_gp :: GasPool
  l_statedb :: 's
  l_usedGas :: uint64
  l_feeAmount :: int
  l_receipts :: "Receipt list"
  l_allLogs :: "Log list"

text \<open>
  The loop over \<^verbatim>\<open>block.Transactions()\<close>, from index \<open>i\<close> on; \<open>Some err\<close> is the
  early return with the error of \<^verbatim>\<open>ApplyTransaction\<close>.
\<close>

fun Process_loop ::
  "('s, 't, 'c, 'b, 'v) Extern \<Rightarrow> ('s, 't, 'c, 'b, 'r) StateProcessor \<Rightarrow> 't Block \<Rightarrow> 'v \<Rightarrow> nat
     \<Rightarrow> 't list \<Rightarrow> 's LoopState \<Rightarrow> error option \<times> 's LoopState" where
  "Process_loop X fp block cfg i [] st = (None, st)"
| "Process_loop X fp block cfg i (tx # txs) st =
     (let txhash = (if IsTIP10 X (config fp) (Number (header block)) then Hash X tx
                    else HashOld X tx);
          statedb0 = Prepare X txhash (blockhash block) (int i) (l_statedb st)
      in case ApplyTransaction X (config fp) (bc fp) (l_gp st) statedb0 (header block) tx
                (l_usedGas st) (l_feeAmount st) cfg of
           (Inl err, gp1, statedb1, usedGas1, feeAmount1) \<Rightarrow>
             (Some err, st\<lparr>l_gp := gp1, l_statedb := statedb1, l_usedGas := usedGas1,
                           l_feeAmount := feeAmount1\<rparr>)
         | (Inr receipt, gp1, statedb1, usedGas1, feeAmount1) \<Rightarrow>
             Process_loop X fp block cfg (Suc i) txs
               \<lparr>l_gp = gp1, l_statedb = statedb1, l_usedGas = usedGas1,
                l_feeAmount = feeAmount1, l_receipts = l_receipts st @ [receipt],
                l_allLogs = l_allLogs st @ Logs receipt\<rparr>)"

text \<open>
  \<^verbatim>\<open>Process\<close> returns the receipts, the logs, the gas used and the reward summary,
  or the error, then the state database as the call leaves it. \<open>Process_init\<close> is
  its \<^verbatim>\<open>var\<close> block: the values of the loop's variables before the first
  transaction.
\<close>

definition Process_init :: "'t Block \<Rightarrow> 's \<Rightarrow> 's LoopState" where
  "Process_init block statedb =
     \<lparr>l_gp = AddGas 0 (GasLimit (header block)), l_statedb = statedb,
      l_usedGas = 0, l_feeAmount = 0, l_receipts = [], l_allLogs = []\<rparr>"

definition Process ::
  "('s, 't, 'c, 'b, 'v) Extern \<Rightarrow> ('s, 't, 'c, 'b, 'r) StateProcessor \<Rightarrow> 't Block \<Rightarrow> 's \<Rightarrow> 'v
     \<Rightarrow> (error + Receipt list \<times> Log list \<times> uint64 \<times> 'r) \<times> 's" where
  "Process X fp block statedb cfg =
     (let st0 = Process_init block statedb
      in case Process_loop X fp block cfg 0 (transactions block) st0 of
           (Some err, st) \<Rightarrow> (Inl err, l_statedb st)
         | (None, st) \<Rightarrow>
             (case engine fp (bc fp) (header block) (l_statedb st) (transactions block)
                     (l_receipts st) (l_feeAmount st) of
                (Inl err, statedb1) \<Rightarrow> (Inl err, statedb1)
              | (Inr infos, statedb1) \<Rightarrow>
                  (Inr (l_receipts st, l_allLogs st, l_usedGas st, infos), statedb1)))"

subsection \<open>The specification's vocabulary\<close>

text \<open>
  The Hard-Fork Policy Gate in the specification's words: above the first threshold a
  sender on the first deny-list is rejected, above the second threshold a sender on the
  second deny-list is rejected as well.
\<close>

definition spec_denied :: "('s, 't, 'c, 'b, 'v) Extern \<Rightarrow> int \<Rightarrow> address \<Rightarrow> bool" where
  "spec_denied X height sender \<longleftrightarrow>
     (6638000 < height \<and> ForbidAddress X sender \<noteq> None) \<or>
     (24642000 < height \<and> ForbidAddress2 X sender \<noteq> None)"

text \<open>
  The hash that the hard-fork gate selects for a transaction at a height.
\<close>

definition spec_txhash :: "('s, 't, 'c, 'b, 'v) Extern \<Rightarrow> 'c \<Rightarrow> int \<Rightarrow> 't \<Rightarrow> hash" where
  "spec_txhash X cconfig height tx =
     (if IsTIP10 X cconfig height then Hash X tx else HashOld X tx)"

text \<open>
  The specification's fee of one transaction, from its receipt: gas used times gas price,
  plus the explicit fee when the message has one.
\<close>

definition spec_tx_fee :: "('s, 't, 'c, 'b, 'v) Extern \<Rightarrow> 'c \<Rightarrow> int \<Rightarrow> 't \<Rightarrow> Receipt \<Rightarrow> int" where
  "spec_tx_fee X cconfig height tx receipt =
     (case AsMessage X cconfig height tx of
        Inl err \<Rightarrow> 0
      | Inr msg \<Rightarrow>
          uint (GasUsed receipt) * GasPrice msg + (case Fee msg of Some fee \<Rightarrow> fee | None \<Rightarrow> 0))"

text \<open>
  The Read-Only Executor in the specification's words: as \<open>ReadTransaction\<close>, but the
  message that is executed is the reconstruction, with the payment field stripped (the
  zero address), nonce zero and no nonce check.
\<close>

definition spec_ReadTransaction ::
  "('s, 't, 'c, 'b, 'v) Extern \<Rightarrow> 'c \<Rightarrow> 'b \<Rightarrow> 's \<Rightarrow> Header \<Rightarrow> 't \<Rightarrow> 'v
     \<Rightarrow> (error + bytes \<times> uint64) \<times> 's" where
  "spec_ReadTransaction X cconfig chain statedb hdr tx cfg =
     (case AsMessage X cconfig (Number hdr) tx of
        Inl err \<Rightarrow> (Inl err, statedb)
      | Inr msg \<Rightarrow>
          (let stripped = NewMessage (From msg) (To msg) 0 0 (Value msg) (Fee msg)
                            (Gas msg) (GasPrice msg) (Data msg) False
           in if spec_denied X (Number hdr) (From msg)
              then (Inl (case ForbidAddress X (From msg) of
                           Some err \<Rightarrow> err
                         | None \<Rightarrow> (case ForbidAddress2 X (From msg) of
                                       Some err \<Rightarrow> err | None \<Rightarrow> [])), statedb)
              else (case ApplyMessage X (NewEVM (NewEVMContext stripped hdr chain) cconfig cfg)
                           stripped MaxUint64 statedb of
                      (Inl err, gp1, statedb1) \<Rightarrow> (Inl err, statedb1)
                    | (Inr result, gp1, statedb1) \<Rightarrow>
                        (Inr (ReturnData result, UsedGas result), statedb1))))"

subsection \<open>A small chain for concrete runs\<close>

text \<open>
  A state database with the three values that \<^verbatim>\<open>Prepare\<close> stores, the logs by
  transaction hash, the account nonces and a count of the \<^verbatim>\<open>Finalise\<close> calls; a
  transaction is its message with a flag that says whether the signature is valid; the
  chain configuration is the height of the TIP10 fork. The executor checks the nonce
  when the message asks for it, takes the message's gas from the pool, increments the
  sender's nonce and emits one log with the message's payment address as its topic; the
  inner call reverts on the payload \<open>[253]\<close>.
\<close>

record ExState =
  ex_thash :: hash
  ex_bhash :: hash
  ex_txIndex :: int
  ex_logs :: "hash \<Rightarrow> Log list"
  ex_nonce :: "address \<Rightarrow> uint64"
  ex_finalised :: nat

type_synonym ExTx = "Message \<times> bool"

definition ex_ApplyMessage ::
  "(int, unit, unit) EVM \<Rightarrow> Message \<Rightarrow> GasPool \<Rightarrow> ExState
     \<Rightarrow> (error + ExecutionResult) \<times> GasPool \<times> ExState" where
  "ex_ApplyMessage vmenv msg gp s =
     (if CheckNonce msg \<and> ex_nonce s (From msg) \<noteq> Nonce msg then (Inl ''invalid nonce'', gp, s)
      else if gp < Gas msg then (Inl ''gas limit reached'', gp, s)
      else (Inr \<lparr>UsedGas = Gas msg, Failed = (Data msg = [253]), ReturnData = Data msg\<rparr>,
            gp - Gas msg,
            s\<lparr>ex_logs := (ex_logs s)(ex_thash s := ex_logs s (ex_thash s) @
                      [\<lparr>LogAddress = From msg, LogTopics = [Payment msg], LogData = Data msg\<rparr>]),
              ex_nonce := (ex_nonce s)(From msg := ex_nonce s (From msg) + 1)\<rparr>))"

definition ex_X :: "(ExState, ExTx, int, unit, unit) Extern" where
  "ex_X =
     \<lparr>AsMessage = (\<lambda>c n tx. if snd tx then Inr (fst tx) else Inl ''invalid sender''),
      ForbidAddress = (\<lambda>a. if a = 666 then Some ''forbidden address'' else None),
      ForbidAddress2 = (\<lambda>a. if a = 777 then Some ''forbidden address 2'' else None),
      IsTIP10 = (\<lambda>c n. c \<le> n),
      Hash = (\<lambda>tx. 1000 + unat (Nonce (fst tx))),
      HashOld = (\<lambda>tx. 2000 + unat (Nonce (fst tx))),
      TxNonce = (\<lambda>tx. Nonce (fst tx)),
      ApplyMessage = ex_ApplyMessage,
      Prepare = (\<lambda>h b i s. s\<lparr>ex_thash := h, ex_bhash := b, ex_txIndex := i\<rparr>),
      Finalise = (\<lambda>d s. s\<lparr>ex_finalised := Suc (ex_finalised s)\<rparr>),
      GetLogs = (\<lambda>s h. ex_logs s h),
      StateBlockHash = ex_bhash,
      TxIndex = ex_txIndex,
      CreateBloom = (\<lambda>rs. sum_list (map (\<lambda>r. length (Logs r)) rs)),
      CreateAddress = (\<lambda>a n. a * 1000 + unat n + 1)\<rparr>"

definition ex_engine :: "(ExState, ExTx, unit, int) Engine" where
  "ex_engine chain hdr s txs receipts fee = (Inr fee, s\<lparr>ex_finalised := 100 + ex_finalised s\<rparr>)"

definition ex_fp :: "(ExState, ExTx, int, unit, int) StateProcessor" where
  "ex_fp = \<lparr>config = 50, bc = (), engine = ex_engine\<rparr>"

definition ex_state :: ExState where
  "ex_state = \<lparr>ex_thash = 0, ex_bhash = 0, ex_txIndex = 0, ex_logs = (\<lambda>h. []),
               ex_nonce = (\<lambda>a. 0), ex_finalised = 0\<rparr>"

definition ex_msg :: "address \<Rightarrow> address option \<Rightarrow> uint64 \<Rightarrow> int option \<Rightarrow> bytes \<Rightarrow> Message" where
  "ex_msg sender to nonce fee data = NewMessage sender to 9 nonce 0 fee 21000 2 data True"

definition ex_header :: "int \<Rightarrow> Header" where
  "ex_header n = \<lparr>Number = n, GasLimit = 50000\<rparr>"

definition ex_block :: "int \<Rightarrow> ExTx list \<Rightarrow> ExTx Block" where
  "ex_block n txs = \<lparr>header = ex_header n, transactions = txs, blockhash = 77\<rparr>"

definition ex_txs :: "ExTx list" where
  "ex_txs = [(ex_msg 7 (Some 8) 0 None [], True), (ex_msg 7 None 1 (Some 5) [253], True)]"

text \<open>
  The same chain with an executor that checks nothing, returns the sender's account nonce
  as its output and increments it.
\<close>

definition ex_reading_ApplyMessage ::
  "(int, unit, unit) EVM \<Rightarrow> Message \<Rightarrow> GasPool \<Rightarrow> ExState
     \<Rightarrow> (error + ExecutionResult) \<times> GasPool \<times> ExState" where
  "ex_reading_ApplyMessage vmenv msg gp s =
     (Inr \<lparr>UsedGas = Gas msg, Failed = False,
           ReturnData = [of_nat (unat (ex_nonce s (From msg)))]\<rparr>,
      gp - Gas msg,
      s\<lparr>ex_nonce := (ex_nonce s)(From msg := ex_nonce s (From msg) + 1)\<rparr>)"

definition ex_reading_X :: "(ExState, ExTx, int, unit, unit) Extern" where
  "ex_reading_X = ex_X\<lparr>ApplyMessage := ex_reading_ApplyMessage\<rparr>"

section \<open>Properties\<close>

subsection \<open>One transaction\<close>

text \<open>
  The nested deny-list test of \<open>ApplyTransaction\<close> lets a sender pass exactly when the
  policy gate of the specification does not deny it.
\<close>

lemma forbid_gate_None:
  "(if 6638000 < n
    then (case ForbidAddress X a of Some err \<Rightarrow> Some err
          | None \<Rightarrow> if 24642000 < n then ForbidAddress2 X a else None)
    else None) = None \<longleftrightarrow> \<not> spec_denied X n a"
  by (auto simp: spec_denied_def split: option.splits)

lemma ApplyTransaction_InrD:
  assumes "ApplyTransaction X c b gp s h tx ug fee cfg = (Inr r, gp', s', ug', fee')"
  shows "\<exists>msg result s1.
           AsMessage X c (Number h) tx = Inr msg \<and> \<not> spec_denied X (Number h) (From msg) \<and>
           ApplyMessage X (NewEVM (NewEVMContext msg h b) c cfg) msg gp s = (Inr result, gp', s1) \<and>
           s' = Finalise X True s1 \<and> ug' = ug + UsedGas result \<and>
           fee' = fee + uint (UsedGas result) * GasPrice msg
                    + (case Fee msg of Some f \<Rightarrow> f | None \<Rightarrow> 0) \<and>
           PostState r = [] \<and> Success r = (\<not> Failed result) \<and>
           CumulativeGasUsed r = ug + UsedGas result \<and> GasUsed r = UsedGas result \<and>
           TxHash r = spec_txhash X c (Number h) tx \<and>
           Logs r = GetLogs X s' (spec_txhash X c (Number h) tx) \<and>
           Bloom r = CreateBloom X
                       [r\<lparr>Bloom := 0, BlockHash := 0, BlockNumber := 0, TransactionIndex := 0\<rparr>] \<and>
           ContractAddress r = (case To msg of None \<Rightarrow> CreateAddress X (From msg) (TxNonce X tx)
                                | Some a \<Rightarrow> 0) \<and>
           BlockHash r = StateBlockHash X s' \<and> BlockNumber r = Number h \<and>
           TransactionIndex r = word_of_int (TxIndex X s')"
proof (cases "AsMessage X c (Number h) tx")
  case (Inl e)
  with assms show ?thesis by (simp add: ApplyTransaction_def)
next
  case (Inr msg)
  show ?thesis
  proof (cases "spec_denied X (Number h) (From msg)")
    case True
    then have "(if 6638000 < Number h
        then (case ForbidAddress X (From msg) of Some err \<Rightarrow> Some err
          | None \<Rightarrow> if 24642000 < Number h then ForbidAddress2 X (From msg) else None)
        else None) \<noteq> None" using forbid_gate_None[of "Number h" X "From msg"] by simp
    with assms Inr show ?thesis
      by (auto simp: ApplyTransaction_def split: option.splits if_splits)
  next
    case False
    then have g: "(if 6638000 < Number h
        then (case ForbidAddress X (From msg) of Some err \<Rightarrow> Some err
          | None \<Rightarrow> if 24642000 < Number h then ForbidAddress2 X (From msg) else None)
        else None) = None" using forbid_gate_None[of "Number h" X "From msg"] by simp
    obtain res gp1 s1 where am:
      "ApplyMessage X (NewEVM (NewEVMContext msg h b) c cfg) msg gp s = (res, gp1, s1)"
      by (cases "ApplyMessage X (NewEVM (NewEVMContext msg h b) c cfg) msg gp s") auto
    show ?thesis
    proof (cases res)
      case (Inl e)
      with assms Inr g am show ?thesis by (simp add: ApplyTransaction_def Let_def)
    next
      case (Inr result)
      with assms \<open>AsMessage X c (Number h) tx = Inr msg\<close> g am False show ?thesis
        by (auto simp: ApplyTransaction_def Let_def spec_txhash_def NewReceipt_def
              NewEVM_def NewEVMContext_def split: option.splits)
    qed
  qed
qed

lemma ApplyTransaction_InlD:
  assumes "ApplyTransaction X c b gp s h tx ug fee cfg = (Inl e, gp', s', ug', fee')"
  shows "ug' = ug \<and> fee' = fee \<and>
         (AsMessage X c (Number h) tx = Inl e \<and> gp' = gp \<and> s' = s \<or>
          (\<exists>msg. AsMessage X c (Number h) tx = Inr msg \<and>
             (spec_denied X (Number h) (From msg) \<and> gp' = gp \<and> s' = s \<and>
                (ForbidAddress X (From msg) = Some e \<or> ForbidAddress2 X (From msg) = Some e) \<or>
              ApplyMessage X (NewEVM (NewEVMContext msg h b) c cfg) msg gp s = (Inl e, gp', s'))))"
proof (cases "AsMessage X c (Number h) tx")
  case (Inl e')
  with assms show ?thesis by (simp add: ApplyTransaction_def)
next
  case (Inr msg)
  obtain res gp1 s1 where am:
    "ApplyMessage X (NewEVM (NewEVMContext msg h b) c cfg) msg gp s = (res, gp1, s1)"
    by (cases "ApplyMessage X (NewEVM (NewEVMContext msg h b) c cfg) msg gp s") auto
  from assms Inr am show ?thesis
    by (cases res)
       (auto simp: ApplyTransaction_def Let_def spec_denied_def split: option.splits if_splits)
qed

lemma ApplyTransaction_AsMessage_Inl:
  "AsMessage X c (Number h) tx = Inl e \<Longrightarrow>
     ApplyTransaction X c b gp s h tx ug fee cfg = (Inl e, gp, s, ug, fee)"
  by (simp add: ApplyTransaction_def)

lemma ApplyTransaction_ForbidAddress:
  "AsMessage X c (Number h) tx = Inr msg \<Longrightarrow> 6638000 < Number h \<Longrightarrow>
   ForbidAddress X (From msg) = Some e \<Longrightarrow>
     ApplyTransaction X c b gp s h tx ug fee cfg = (Inl e, gp, s, ug, fee)"
  by (simp add: ApplyTransaction_def)

lemma ApplyTransaction_ForbidAddress2:
  "AsMessage X c (Number h) tx = Inr msg \<Longrightarrow> 24642000 < Number h \<Longrightarrow>
   ForbidAddress X (From msg) = None \<Longrightarrow> ForbidAddress2 X (From msg) = Some e \<Longrightarrow>
     ApplyTransaction X c b gp s h tx ug fee cfg = (Inl e, gp, s, ug, fee)"
  by (simp add: ApplyTransaction_def)

lemma ApplyTransaction_exec_Inl:
  "AsMessage X c (Number h) tx = Inr msg \<Longrightarrow> \<not> spec_denied X (Number h) (From msg) \<Longrightarrow>
   ApplyMessage X (NewEVM (NewEVMContext msg h b) c cfg) msg gp s = (Inl e, gp1, s1) \<Longrightarrow>
     ApplyTransaction X c b gp s h tx ug fee cfg = (Inl e, gp1, s1, ug, fee)"
  using forbid_gate_None[of "Number h" X "From msg"]
  by (simp add: ApplyTransaction_def Let_def)

lemma ApplyTransaction_exec_Inr:
  "AsMessage X c (Number h) tx = Inr msg \<Longrightarrow> \<not> spec_denied X (Number h) (From msg) \<Longrightarrow>
   ApplyMessage X (NewEVM (NewEVMContext msg h b) c cfg) msg gp s = (Inr result, gp1, s1) \<Longrightarrow>
     \<exists>r. ApplyTransaction X c b gp s h tx ug fee cfg =
           (Inr r, gp1, Finalise X True s1, ug + UsedGas result,
            fee + uint (UsedGas result) * GasPrice msg
              + (case Fee msg of Some f \<Rightarrow> f | None \<Rightarrow> 0))
         \<and> Success r = (\<not> Failed result)"
  using forbid_gate_None[of "Number h" X "From msg"]
  by (auto simp: ApplyTransaction_def Let_def NewReceipt_def split: option.splits)

lemma ApplyTransaction_low_height:
  "Number h \<le> 6638000 \<Longrightarrow>
     ApplyTransaction (X\<lparr>ForbidAddress := fa, ForbidAddress2 := fb\<rparr>) c b gp s h tx ug fee cfg =
     ApplyTransaction X c b gp s h tx ug fee cfg"
  by (cases "AsMessage X c (Number h) tx")
     (simp_all add: ApplyTransaction_def Let_def
        cong: option.case_cong prod.case_cong sum.case_cong if_cong)

lemma ApplyTransaction_mid_height:
  "Number h \<le> 24642000 \<Longrightarrow>
     ApplyTransaction (X\<lparr>ForbidAddress2 := fb\<rparr>) c b gp s h tx ug fee cfg =
     ApplyTransaction X c b gp s h tx ug fee cfg"
  by (cases "AsMessage X c (Number h) tx")
     (simp_all add: ApplyTransaction_def Let_def
        cong: option.case_cong prod.case_cong sum.case_cong if_cong)

text \<open>Adding two 64-bit values is exact when the sum fits in 64 bits.\<close>

lemma unat_add_no_overflow:
  "unat (a :: uint64) + unat b < 2 ^ 64 \<Longrightarrow> unat (a + b) = unat a + unat b"
  using unat_add_lem[of a b] by simp

subsection \<open>The loop of Process\<close>

lemma Process_loop_Cons_Inl:
  assumes "ApplyTransaction X (config fp) (bc fp) (l_gp st)
             (Prepare X (spec_txhash X (config fp) (Number (header block)) tx) (blockhash block)
                (int i) (l_statedb st))
             (header block) tx (l_usedGas st) (l_feeAmount st) cfg = (Inl e, gp1, s1, ug1, fee1)"
  shows "Process_loop X fp block cfg i (tx # txs) st =
           (Some e, st\<lparr>l_gp := gp1, l_statedb := s1, l_usedGas := ug1, l_feeAmount := fee1\<rparr>)"
  using assms by (simp add: Let_def spec_txhash_def)

lemma Process_loop_Cons_Inr:
  assumes "ApplyTransaction X (config fp) (bc fp) (l_gp st)
             (Prepare X (spec_txhash X (config fp) (Number (header block)) tx) (blockhash block)
                (int i) (l_statedb st))
             (header block) tx (l_usedGas st) (l_feeAmount st) cfg = (Inr r, gp1, s1, ug1, fee1)"
  shows "Process_loop X fp block cfg i (tx # txs) st =
           Process_loop X fp block cfg (Suc i) txs
             \<lparr>l_gp = gp1, l_statedb = s1, l_usedGas = ug1, l_feeAmount = fee1,
              l_receipts = l_receipts st @ [r], l_allLogs = l_allLogs st @ Logs r\<rparr>"
  using assms by (simp add: Let_def spec_txhash_def)

declare Process_loop.simps(2) [simp del]

lemma Process_loop_append:
  "Process_loop X fp block cfg i (xs @ ys) st =
     (case Process_loop X fp block cfg i xs st of
        (None, st1) \<Rightarrow> Process_loop X fp block cfg (i + length xs) ys st1
      | (Some e, st1) \<Rightarrow> (Some e, st1))"
proof (induction xs arbitrary: i st)
  case Nil
  show ?case by simp
next
  case (Cons x xs)
  obtain res gp1 s1 ug1 fee1 where at:
    "ApplyTransaction X (config fp) (bc fp) (l_gp st)
       (Prepare X (spec_txhash X (config fp) (Number (header block)) x) (blockhash block)
          (int i) (l_statedb st))
       (header block) x (l_usedGas st) (l_feeAmount st) cfg = (res, gp1, s1, ug1, fee1)"
    using prod_cases5 by blast
  show ?case
  proof (cases res)
    case (Inl e)
    with at have "\<And>zs. Process_loop X fp block cfg i (x # zs) st =
        (Some e, st\<lparr>l_gp := gp1, l_statedb := s1, l_usedGas := ug1, l_feeAmount := fee1\<rparr>)"
      by (intro Process_loop_Cons_Inl) simp
    then show ?thesis by simp
  next
    case (Inr r)
    let ?st = "\<lparr>l_gp = gp1, l_statedb = s1, l_usedGas = ug1, l_feeAmount = fee1,
              l_receipts = l_receipts st @ [r], l_allLogs = l_allLogs st @ Logs r\<rparr>"
    from at Inr have step: "\<And>zs. Process_loop X fp block cfg i (x # zs) st =
        Process_loop X fp block cfg (Suc i) zs ?st"
      by (intro Process_loop_Cons_Inr) simp
    have idx: "Suc i + length xs = i + length (x # xs)" by simp
    have "Process_loop X fp block cfg i ((x # xs) @ ys) st =
            Process_loop X fp block cfg (Suc i) (xs @ ys) ?st"
      using step[of "xs @ ys"] by simp
    also have "\<dots> = (case Process_loop X fp block cfg (Suc i) xs ?st of
        (None, st1) \<Rightarrow> Process_loop X fp block cfg (Suc i + length xs) ys st1
      | (Some e, st1) \<Rightarrow> (Some e, st1))"
      by (rule Cons.IH)
    also have "\<dots> = (case Process_loop X fp block cfg i (x # xs) st of
        (None, st1) \<Rightarrow> Process_loop X fp block cfg (i + length (x # xs)) ys st1
      | (Some e, st1) \<Rightarrow> (Some e, st1))"
      unfolding step[of xs] idx ..
    finally show ?thesis .
  qed
qed

lemma Process_loop_Cons_None:
  assumes "Process_loop X fp block cfg i (tx # txs) st = (None, st')"
  shows "\<exists>r gp1 s1 ug1 fee1.
           ApplyTransaction X (config fp) (bc fp) (l_gp st)
             (Prepare X (spec_txhash X (config fp) (Number (header block)) tx) (blockhash block)
                (int i) (l_statedb st))
             (header block) tx (l_usedGas st) (l_feeAmount st) cfg = (Inr r, gp1, s1, ug1, fee1) \<and>
           Process_loop X fp block cfg (Suc i) txs
             \<lparr>l_gp = gp1, l_statedb = s1, l_usedGas = ug1, l_feeAmount = fee1,
              l_receipts = l_receipts st @ [r], l_allLogs = l_allLogs st @ Logs r\<rparr> = (None, st')"
  using assms
  by (auto simp: Process_loop.simps(2) Let_def spec_txhash_def split: prod.splits sum.splits)

lemma Process_loop_totals:
  assumes "Process_loop X fp block cfg i txs st = (None, st')"
  shows "\<exists>rs. l_receipts st' = l_receipts st @ rs \<and> length rs = length txs \<and>
           l_allLogs st' = l_allLogs st @ concat (map Logs rs) \<and>
           l_usedGas st' = l_usedGas st + sum_list (map GasUsed rs) \<and>
           l_feeAmount st' = l_feeAmount st +
             sum_list (map2 (spec_tx_fee X (config fp) (Number (header block))) txs rs)"
  using assms
proof (induction txs arbitrary: i st)
  case Nil
  then show ?case by simp
next
  case (Cons tx txs)
  from Process_loop_Cons_None[OF Cons.prems] obtain r gp1 s1 ug1 fee1 where
    at: "ApplyTransaction X (config fp) (bc fp) (l_gp st)
             (Prepare X (spec_txhash X (config fp) (Number (header block)) tx) (blockhash block)
                (int i) (l_statedb st))
             (header block) tx (l_usedGas st) (l_feeAmount st) cfg = (Inr r, gp1, s1, ug1, fee1)"
    and rest: "Process_loop X fp block cfg (Suc i) txs
             \<lparr>l_gp = gp1, l_statedb = s1, l_usedGas = ug1, l_feeAmount = fee1,
              l_receipts = l_receipts st @ [r], l_allLogs = l_allLogs st @ Logs r\<rparr> = (None, st')"
    by blast
  from ApplyTransaction_InrD[OF at] obtain msg and result :: ExecutionResult where
    m: "AsMessage X (config fp) (Number (header block)) tx = Inr msg"
    and ug: "ug1 = l_usedGas st + UsedGas result"
    and fee: "fee1 = l_feeAmount st + uint (UsedGas result) * GasPrice msg
                    + (case Fee msg of Some f \<Rightarrow> f | None \<Rightarrow> 0)"
    and gu: "GasUsed r = UsedGas result"
    by blast
  from Cons.IH[OF rest] obtain rs where
    rs: "l_receipts st' = (l_receipts st @ [r]) @ rs" "length rs = length txs"
      "l_allLogs st' = (l_allLogs st @ Logs r) @ concat (map Logs rs)"
      "l_usedGas st' = ug1 + sum_list (map GasUsed rs)"
      "l_feeAmount st' = fee1 +
             sum_list (map2 (spec_tx_fee X (config fp) (Number (header block))) txs rs)"
    by auto
  have "spec_tx_fee X (config fp) (Number (header block)) tx r =
          uint (UsedGas result) * GasPrice msg + (case Fee msg of Some f \<Rightarrow> f | None \<Rightarrow> 0)"
    by (simp add: spec_tx_fee_def m gu)
  with rs ug fee gu show ?case
    by (intro exI[of _ "r # rs"]) (simp add: algebra_simps)
qed

text \<open>
  A successful run of the loop passes through a sequence of loop states, one more than
  there are transactions: it starts in the given state, and each transaction is applied
  to the gas pool, the prepared state and the counters of the state before it and
  returns those of the state after it.
\<close>

lemma Process_loop_chain:
  assumes "Process_loop X fp block cfg i txs st = (None, st')"
  shows "\<exists>sts rs. length sts = Suc (length txs) \<and> length rs = length txs \<and>
           sts ! 0 = st \<and> sts ! length txs = st' \<and>
           l_receipts st' = l_receipts st @ rs \<and>
           (\<forall>k<length txs.
              ApplyTransaction X (config fp) (bc fp) (l_gp (sts ! k))
                (Prepare X (spec_txhash X (config fp) (Number (header block)) (txs ! k))
                   (blockhash block) (int (i + k)) (l_statedb (sts ! k)))
                (header block) (txs ! k) (l_usedGas (sts ! k)) (l_feeAmount (sts ! k)) cfg
              = (Inr (rs ! k), l_gp (sts ! Suc k), l_statedb (sts ! Suc k),
                 l_usedGas (sts ! Suc k), l_feeAmount (sts ! Suc k)))"
  using assms
proof (induction txs arbitrary: i st)
  case Nil
  then show ?case by (intro exI[of _ "[st]"] exI[of _ "[]"]) simp
next
  case (Cons tx txs)
  from Process_loop_Cons_None[OF Cons.prems] obtain r gp1 s1 ug1 fee1 where
    at: "ApplyTransaction X (config fp) (bc fp) (l_gp st)
             (Prepare X (spec_txhash X (config fp) (Number (header block)) tx) (blockhash block)
                (int i) (l_statedb st))
             (header block) tx (l_usedGas st) (l_feeAmount st) cfg = (Inr r, gp1, s1, ug1, fee1)"
    and rest: "Process_loop X fp block cfg (Suc i) txs
             \<lparr>l_gp = gp1, l_statedb = s1, l_usedGas = ug1, l_feeAmount = fee1,
              l_receipts = l_receipts st @ [r], l_allLogs = l_allLogs st @ Logs r\<rparr> = (None, st')"
    by blast
  let ?st1 = "\<lparr>l_gp = gp1, l_statedb = s1, l_usedGas = ug1, l_feeAmount = fee1,
              l_receipts = l_receipts st @ [r], l_allLogs = l_allLogs st @ Logs r\<rparr>"
  from Cons.IH[OF rest] obtain sts rs where
    len: "length sts = Suc (length txs)" "length rs = length txs"
    and ends: "sts ! 0 = ?st1" "sts ! length txs = st'"
    and recs: "l_receipts st' = l_receipts ?st1 @ rs"
    and steps: "\<forall>k<length txs.
              ApplyTransaction X (config fp) (bc fp) (l_gp (sts ! k))
                (Prepare X (spec_txhash X (config fp) (Number (header block)) (txs ! k))
                   (blockhash block) (int (Suc i + k)) (l_statedb (sts ! k)))
                (header block) (txs ! k) (l_usedGas (sts ! k)) (l_feeAmount (sts ! k)) cfg
              = (Inr (rs ! k), l_gp (sts ! Suc k), l_statedb (sts ! Suc k),
                 l_usedGas (sts ! Suc k), l_feeAmount (sts ! Suc k))"
    by blast
  have step: "ApplyTransaction X (config fp) (bc fp) (l_gp ((st # sts) ! k))
                (Prepare X (spec_txhash X (config fp) (Number (header block)) ((tx # txs) ! k))
                   (blockhash block) (int (i + k)) (l_statedb ((st # sts) ! k)))
                (header block) ((tx # txs) ! k) (l_usedGas ((st # sts) ! k))
                (l_feeAmount ((st # sts) ! k)) cfg
              = (Inr ((r # rs) ! k), l_gp ((st # sts) ! Suc k), l_statedb ((st # sts) ! Suc k),
                 l_usedGas ((st # sts) ! Suc k), l_feeAmount ((st # sts) ! Suc k))"
    if "k < length (tx # txs)" for k
  proof (cases k)
    case 0
    with at ends show ?thesis by simp
  next
    case (Suc j)
    with that have "j < length txs" by simp
    with steps Suc show ?thesis by simp
  qed
  show ?case
  proof (intro exI[of _ "st # sts"] exI[of _ "r # rs"] conjI allI impI)
    show "length (st # sts) = Suc (length (tx # txs))" using len by simp
    show "length (r # rs) = length (tx # txs)" using len by simp
    show "(st # sts) ! 0 = st" by simp
    show "(st # sts) ! length (tx # txs) = st'" using ends by simp
    show "l_receipts st' = l_receipts st @ r # rs" using recs by simp
  next
    fix k assume "k < length (tx # txs)"
    then show "ApplyTransaction X (config fp) (bc fp) (l_gp ((st # sts) ! k))
                (Prepare X (spec_txhash X (config fp) (Number (header block)) ((tx # txs) ! k))
                   (blockhash block) (int (i + k)) (l_statedb ((st # sts) ! k)))
                (header block) ((tx # txs) ! k) (l_usedGas ((st # sts) ! k))
                (l_feeAmount ((st # sts) ! k)) cfg
              = (Inr ((r # rs) ! k), l_gp ((st # sts) ! Suc k), l_statedb ((st # sts) ! Suc k),
                 l_usedGas ((st # sts) ! Suc k), l_feeAmount ((st # sts) ! Suc k))"
      by (rule step)
  qed
qed

lemma Process_loop_nth:
  assumes run: "Process_loop X fp block cfg 0 txs st0 = (None, st')" and k: "k < length txs"
  shows "\<exists>st r gp1 s1 ug1 fee1.
           Process_loop X fp block cfg 0 (take k txs) st0 = (None, st) \<and>
           l_receipts st = take (length (l_receipts st0) + k) (l_receipts st') \<and>
           l_receipts st' ! (length (l_receipts st0) + k) = r \<and>
           ApplyTransaction X (config fp) (bc fp) (l_gp st)
             (Prepare X (spec_txhash X (config fp) (Number (header block)) (txs ! k))
                (blockhash block) (int k) (l_statedb st))
             (header block) (txs ! k) (l_usedGas st) (l_feeAmount st) cfg
             = (Inr r, gp1, s1, ug1, fee1)"
proof -
  have split: "txs = take k txs @ (txs ! k) # drop (Suc k) txs"
    using k by (simp add: id_take_nth_drop)
  obtain e1 st where pre: "Process_loop X fp block cfg 0 (take k txs) st0 = (e1, st)"
    by (cases "Process_loop X fp block cfg 0 (take k txs) st0") auto
  have whole: "Process_loop X fp block cfg 0 (take k txs @ (txs ! k) # drop (Suc k) txs) st0
                 = (None, st')"
    using run split by simp
  have e1: "e1 = None"
    using whole pre by (cases e1) (simp_all add: Process_loop_append)
  have len: "length (take k txs) = k" using k by simp
  have rest: "Process_loop X fp block cfg k ((txs ! k) # drop (Suc k) txs) st = (None, st')"
    using whole pre e1 len by (simp add: Process_loop_append)
  from Process_loop_Cons_None[OF rest] obtain r gp1 s1 ug1 fee1 where
    at: "ApplyTransaction X (config fp) (bc fp) (l_gp st)
             (Prepare X (spec_txhash X (config fp) (Number (header block)) (txs ! k))
                (blockhash block) (int k) (l_statedb st))
             (header block) (txs ! k) (l_usedGas st) (l_feeAmount st) cfg
             = (Inr r, gp1, s1, ug1, fee1)"
    and tl: "Process_loop X fp block cfg (Suc k) (drop (Suc k) txs)
             \<lparr>l_gp = gp1, l_statedb = s1, l_usedGas = ug1, l_feeAmount = fee1,
              l_receipts = l_receipts st @ [r], l_allLogs = l_allLogs st @ Logs r\<rparr> = (None, st')"
    by blast
  from Process_loop_totals[OF pre[unfolded e1]] obtain rs1 where
    rs1: "l_receipts st = l_receipts st0 @ rs1" "length rs1 = k"
    using len by auto
  from Process_loop_totals[OF tl] obtain rs2 where
    rs2: "l_receipts st' = (l_receipts st @ [r]) @ rs2"
    by auto
  have "l_receipts st' = (l_receipts st0 @ rs1) @ r # rs2"
    using rs1 rs2 by simp
  then have "l_receipts st = take (length (l_receipts st0) + k) (l_receipts st')"
    and "l_receipts st' ! (length (l_receipts st0) + k) = r"
    using rs1 by (simp_all add: nth_append)
  with pre e1 at show ?thesis by blast
qed

lemma Process_abort:
  assumes blk: "transactions block = pre @ tx # post"
    and pre: "Process_loop X fp block cfg 0 pre (Process_init block statedb) = (None, st)"
    and at: "ApplyTransaction X (config fp) (bc fp) (l_gp st)
               (Prepare X (spec_txhash X (config fp) (Number (header block)) tx) (blockhash block)
                  (int (length pre)) (l_statedb st))
               (header block) tx (l_usedGas st) (l_feeAmount st) cfg = (Inl e, gp1, s1, ug1, fee1)"
  shows "Process X fp block statedb cfg = (Inl e, s1)"
proof -
  have "Process_loop X fp block cfg 0 (pre @ tx # post) (Process_init block statedb) =
          Process_loop X fp block cfg (length pre) (tx # post) st"
    using pre by (simp add: Process_loop_append)
  also have "\<dots> = (Some e, st\<lparr>l_gp := gp1, l_statedb := s1, l_usedGas := ug1, l_feeAmount := fee1\<rparr>)"
    by (rule Process_loop_Cons_Inl[OF at])
  finally show ?thesis
    using blk by (simp add: Process_def)
qed

lemma Process_continue:
  assumes pre: "Process_loop X fp block cfg 0 pre st0 = (None, st)"
    and at: "ApplyTransaction X (config fp) (bc fp) (l_gp st)
               (Prepare X (spec_txhash X (config fp) (Number (header block)) tx) (blockhash block)
                  (int (length pre)) (l_statedb st))
               (header block) tx (l_usedGas st) (l_feeAmount st) cfg = (Inr r, gp1, s1, ug1, fee1)"
  shows "Process_loop X fp block cfg 0 (pre @ tx # post) st0 =
           Process_loop X fp block cfg (Suc (length pre)) post
             \<lparr>l_gp = gp1, l_statedb = s1, l_usedGas = ug1, l_feeAmount = fee1,
              l_receipts = l_receipts st @ [r], l_allLogs = l_allLogs st @ Logs r\<rparr>"
proof -
  have "Process_loop X fp block cfg 0 (pre @ tx # post) st0 =
          Process_loop X fp block cfg (length pre) (tx # post) st"
    using pre by (simp add: Process_loop_append)
  also have "\<dots> = Process_loop X fp block cfg (Suc (length pre)) post
             \<lparr>l_gp = gp1, l_statedb = s1, l_usedGas = ug1, l_feeAmount = fee1,
              l_receipts = l_receipts st @ [r], l_allLogs = l_allLogs st @ Logs r\<rparr>"
    by (rule Process_loop_Cons_Inr[OF at])
  finally show ?thesis .
qed

lemma Process_InrD:
  assumes "Process X fp block statedb cfg = (Inr (receipts, logs, gas, infos), statedb')"
  shows "\<exists>st. Process_loop X fp block cfg 0 (transactions block) (Process_init block statedb)
                 = (None, st) \<and>
              receipts = l_receipts st \<and> logs = l_allLogs st \<and> gas = l_usedGas st \<and>
              engine fp (bc fp) (header block) (l_statedb st) (transactions block)
                (l_receipts st) (l_feeAmount st) = (Inr infos, statedb')"
proof -
  let ?st0 = "Process_init block statedb"
  obtain e st where run: "Process_loop X fp block cfg 0 (transactions block) ?st0 = (e, st)"
    by (cases "Process_loop X fp block cfg 0 (transactions block) ?st0") auto
  have e: "e = None"
    using assms run by (cases e) (simp_all add: Process_def)
  obtain fres s2 where fin: "engine fp (bc fp) (header block) (l_statedb st) (transactions block)
                (l_receipts st) (l_feeAmount st) = (fres, s2)"
    by (cases "engine fp (bc fp) (header block) (l_statedb st) (transactions block)
                (l_receipts st) (l_feeAmount st)") auto
  have "fres = Inr infos \<and> s2 = statedb' \<and> receipts = l_receipts st \<and>
             logs = l_allLogs st \<and> gas = l_usedGas st"
    using assms run e fin by (cases fres) (simp_all add: Process_def)
  with run e fin show ?thesis by auto
qed

lemma Process_init_simps:
  "l_gp (Process_init block statedb) = GasLimit (header block)"
  "l_statedb (Process_init block statedb) = statedb"
  "l_usedGas (Process_init block statedb) = 0"
  "l_feeAmount (Process_init block statedb) = 0"
  "l_receipts (Process_init block statedb) = []"
  "l_allLogs (Process_init block statedb) = []"
  by (simp_all add: Process_init_def AddGas_def)

subsection \<open>The read-only executor\<close>

text \<open>No 64-bit value is above the pool that \<open>ReadTransaction\<close> starts from.\<close>

lemma MaxUint64_top: "(g :: uint64) \<le> MaxUint64"
proof -
  have "(18446744073709551615 :: 64 word) = - 1" by simp
  then show ?thesis unfolding MaxUint64_def by (simp only: word_n1_ge)
qed

lemma ReadTransaction_unfold:
  "ReadTransaction X c b s h tx cfg =
     (case AsMessage X c (Number h) tx of
        Inl err \<Rightarrow> (Inl err, s)
      | Inr msg \<Rightarrow>
          (case (if 6638000 < Number h then ForbidAddress X (From msg) else None) of
             Some err \<Rightarrow> (Inl err, s)
           | None \<Rightarrow>
               (case ApplyMessage X
                       (NewEVM (NewEVMContext
                          (NewMessage (From msg) (To msg) (Payment msg) 0 (Value msg) (Fee msg)
                             (Gas msg) (GasPrice msg) (Data msg) False) h b) c cfg)
                       msg MaxUint64 s of
                  (Inl err, gp1, s1) \<Rightarrow> (Inl err, s1)
                | (Inr result, gp1, s1) \<Rightarrow> (Inr (ReturnData result, UsedGas result), s1))))"
proof -
  have "From (NewMessage (From msg) (To msg) (Payment msg) 0 (Value msg) (Fee msg)
                             (Gas msg) (GasPrice msg) (Data msg) False) = From msg" for msg :: Message
    by (simp add: NewMessage_def)
  then show ?thesis
    by (simp add: ReadTransaction_def Let_def AddGas_def
          cong: sum.case_cong option.case_cong if_cong)
qed

lemma ReadTransaction_Finalise:
  "ReadTransaction (X\<lparr>Finalise := f\<rparr>) c b s h tx cfg = ReadTransaction X c b s h tx cfg"
  by (simp add: ReadTransaction_unfold cong: sum.case_cong option.case_cong if_cong)

subsection \<open>Concrete runs\<close>

lemmas ex_defs = ex_block_def ex_header_def ex_fp_def ex_engine_def ex_X_def ex_msg_def
  NewMessage_def ex_ApplyMessage_def ex_state_def AddGas_def NewEVM_def NewEVMContext_def
  NewReceipt_def MaxUint64_def ex_txs_def

lemma ex_run:
  "\<exists>receipts logs s.
     Process ex_X ex_fp (ex_block 10 ex_txs) ex_state ()
      = (Inr (receipts, logs, 42000, 84005), s) \<and> map Success receipts = [True, False]"
  by (simp add: Process_def Process_init_def Process_loop.simps(2) ApplyTransaction_def
        ex_defs Let_def)

lemma ex_run60:
  "\<exists>receipts logs s.
     Process ex_X ex_fp (ex_block 60 ex_txs) ex_state ()
      = (Inr (receipts, logs, 42000, 84005), s)"
  by (simp add: Process_def Process_init_def Process_loop.simps(2) ApplyTransaction_def
        ex_defs Let_def)

lemma ex_create:
  "\<exists>r gp' s' ug' fee'.
     ApplyTransaction ex_X (config ex_fp) (bc ex_fp) 50000 (Prepare ex_X 2000 77 0 ex_state)
       (ex_header 10) (ex_msg 7 None 0 (Some 5) [253], True) 0 0 () = (Inr r, gp', s', ug', fee')"
  by (simp add: ApplyTransaction_def ex_defs Let_def)

section \<open>The claims\<close>

text \<open>
  C1. When \<open>Process\<close> succeeds there is a sequence of loop states, one more than there
  are transactions, such that: the first has the gas pool at the block's gas limit, the
  given state database, used gas zero and fee accumulator zero; for every index \<open>k\<close>,
  \<open>ApplyTransaction\<close>, called with the gas pool, the counters and the (prepared) state
  database of state \<open>k\<close> on the transaction at index \<open>k\<close>, returns the receipt at
  index \<open>k\<close> together with exactly the gas pool, state database, used gas and fee
  accumulator of state \<open>k + 1\<close>; there is one receipt for each transaction; the logs are
  the receipts' logs concatenated in order; the gas used is the used-gas counter of the
  last state (the sum of the receipts' gas, in 64-bit arithmetic); and the reward summary
  is what the engine's \<open>Finalize\<close> returns for the header, the last state's database, the
  transactions, the receipts and the last state's fee accumulator.
\<close>

theorem Process_correct:
  assumes "Process X fp block (statedb :: 's) cfg = (Inr (receipts, logs, gas, infos), statedb')"
  shows "\<exists>sts :: 's LoopState list. length sts = Suc (length (transactions block)) \<and>
              l_gp (sts ! 0) = GasLimit (header block) \<and>
              l_statedb (sts ! 0) = statedb \<and>
              l_usedGas (sts ! 0) = 0 \<and>
              l_feeAmount (sts ! 0) = 0 \<and>
              (\<forall>k<length (transactions block).
                 ApplyTransaction X (config fp) (bc fp) (l_gp (sts ! k))
                   (Prepare X (if IsTIP10 X (config fp) (Number (header block))
                               then Hash X (transactions block ! k)
                               else HashOld X (transactions block ! k))
                      (blockhash block) (int k) (l_statedb (sts ! k)))
                   (header block) (transactions block ! k) (l_usedGas (sts ! k))
                   (l_feeAmount (sts ! k)) cfg
                 = (Inr (receipts ! k), l_gp (sts ! Suc k), l_statedb (sts ! Suc k),
                    l_usedGas (sts ! Suc k), l_feeAmount (sts ! Suc k))) \<and>
              length receipts = length (transactions block) \<and>
              logs = concat (map Logs receipts) \<and>
              gas = l_usedGas (sts ! length (transactions block)) \<and>
              gas = sum_list (map GasUsed receipts) \<and>
              engine fp (bc fp) (header block) (l_statedb (sts ! length (transactions block)))
                (transactions block) receipts (l_feeAmount (sts ! length (transactions block)))
                = (Inr infos, statedb')"
proof -
  let ?st0 = "Process_init block statedb"
  from Process_InrD[OF assms] obtain st where
    run: "Process_loop X fp block cfg 0 (transactions block) ?st0 = (None, st)"
    and res: "receipts = l_receipts st" "logs = l_allLogs st" "gas = l_usedGas st"
    and fin: "engine fp (bc fp) (header block) (l_statedb st) (transactions block)
                (l_receipts st) (l_feeAmount st) = (Inr infos, statedb')"
    by blast
  from Process_loop_totals[OF run] obtain rs where
    rs: "l_receipts st = rs" "length rs = length (transactions block)"
      "l_allLogs st = concat (map Logs rs)" "l_usedGas st = sum_list (map GasUsed rs)"
    by (auto simp: Process_init_simps)
  from Process_loop_chain[OF run] obtain sts rs' where
    len: "length sts = Suc (length (transactions block))"
    and ends: "sts ! 0 = ?st0" "sts ! length (transactions block) = st"
    and recs: "l_receipts st = l_receipts ?st0 @ rs'"
    and steps: "\<forall>k<length (transactions block).
              ApplyTransaction X (config fp) (bc fp) (l_gp (sts ! k))
                (Prepare X (spec_txhash X (config fp) (Number (header block)) (transactions block ! k))
                   (blockhash block) (int (0 + k)) (l_statedb (sts ! k)))
                (header block) (transactions block ! k) (l_usedGas (sts ! k))
                (l_feeAmount (sts ! k)) cfg
              = (Inr (rs' ! k), l_gp (sts ! Suc k), l_statedb (sts ! Suc k),
                 l_usedGas (sts ! Suc k), l_feeAmount (sts ! Suc k))"
    by blast
  have rs': "rs' = receipts" using recs res by (simp add: Process_init_simps)
  show ?thesis
  proof (intro exI[of _ sts] conjI)
    show "length sts = Suc (length (transactions block))" by (rule len)
    show "l_gp (sts ! 0) = GasLimit (header block)" "l_statedb (sts ! 0) = statedb"
      "l_usedGas (sts ! 0) = 0" "l_feeAmount (sts ! 0) = 0"
      using ends by (simp_all add: Process_init_simps)
    show "\<forall>k<length (transactions block).
                 ApplyTransaction X (config fp) (bc fp) (l_gp (sts ! k))
                   (Prepare X (if IsTIP10 X (config fp) (Number (header block))
                               then Hash X (transactions block ! k)
                               else HashOld X (transactions block ! k))
                      (blockhash block) (int k) (l_statedb (sts ! k)))
                   (header block) (transactions block ! k) (l_usedGas (sts ! k))
                   (l_feeAmount (sts ! k)) cfg
                 = (Inr (receipts ! k), l_gp (sts ! Suc k), l_statedb (sts ! Suc k),
                    l_usedGas (sts ! Suc k), l_feeAmount (sts ! Suc k))"
      using steps unfolding rs' spec_txhash_def by simp
    show "length receipts = length (transactions block)" using rs res by simp
    show "logs = concat (map Logs receipts)" using rs res by simp
    show "gas = l_usedGas (sts ! length (transactions block))" using ends res by simp
    show "gas = sum_list (map GasUsed receipts)" using rs res by simp
    show "engine fp (bc fp) (header block) (l_statedb (sts ! length (transactions block)))
                (transactions block) receipts (l_feeAmount (sts ! length (transactions block)))
                = (Inr infos, statedb')"
      using fin ends res by simp
  qed
qed

theorem Process_correct_witness:
  "\<exists>receipts logs s (sts :: ExState LoopState list).
     Process ex_X ex_fp (ex_block 10 ex_txs) ex_state () = (Inr (receipts, logs, 42000, 84005), s) \<and>
     length sts = 3 \<and> length receipts = 2 \<and> logs = concat (map Logs receipts) \<and>
     l_gp (sts ! 0) = 50000 \<and> l_gp (sts ! 1) = 29000 \<and> l_gp (sts ! 2) = 8000 \<and>
     l_usedGas (sts ! 1) = 21000 \<and> l_usedGas (sts ! 2) = 42000 \<and>
     l_feeAmount (sts ! 1) = 42000 \<and> l_feeAmount (sts ! 2) = 84005 \<and>
     ex_nonce (l_statedb (sts ! 2)) 7 = 2 \<and>
     ex_engine () (ex_header 10) (l_statedb (sts ! 2)) ex_txs receipts 84005 = (Inr 84005, s)"
proof -
  let ?blk = "ex_block 10 ex_txs"
  from ex_run obtain receipts logs s where
    h: "Process ex_X ex_fp ?blk ex_state () = (Inr (receipts, logs, 42000, 84005), s)"
    by blast
  have blk: "length (transactions ?blk) = 2" "transactions ?blk = ex_txs"
    "header ?blk = ex_header 10" "blockhash ?blk = 77"
    "GasLimit (header ?blk) = 50000" "Number (header ?blk) = 10"
    by (simp_all add: ex_block_def ex_txs_def ex_header_def)
  from Process_correct[OF h] obtain sts :: "ExState LoopState list" where
    len: "length sts = Suc (length (transactions ?blk))"
    and init: "l_gp (sts ! 0) = GasLimit (header ?blk)" "l_statedb (sts ! 0) = ex_state"
      "l_usedGas (sts ! 0) = 0" "l_feeAmount (sts ! 0) = 0"
    and steps: "\<forall>k<length (transactions ?blk).
                 ApplyTransaction ex_X (config ex_fp) (bc ex_fp) (l_gp (sts ! k))
                   (Prepare ex_X (if IsTIP10 ex_X (config ex_fp) (Number (header ?blk))
                               then Hash ex_X (transactions ?blk ! k)
                               else HashOld ex_X (transactions ?blk ! k))
                      (blockhash ?blk) (int k) (l_statedb (sts ! k)))
                   (header ?blk) (transactions ?blk ! k) (l_usedGas (sts ! k))
                   (l_feeAmount (sts ! k)) ()
                 = (Inr (receipts ! k), l_gp (sts ! Suc k), l_statedb (sts ! Suc k),
                    l_usedGas (sts ! Suc k), l_feeAmount (sts ! Suc k))"
    and rest: "length receipts = length (transactions ?blk)" "logs = concat (map Logs receipts)"
      "engine ex_fp (bc ex_fp) (header ?blk) (l_statedb (sts ! length (transactions ?blk)))
                (transactions ?blk) receipts (l_feeAmount (sts ! length (transactions ?blk)))
                = (Inr 84005, s)"
    by blast
  have k0: "0 < length (transactions ?blk)" and k1: "Suc 0 < length (transactions ?blk)"
    by (simp_all add: ex_block_def ex_txs_def)
  note step0 = steps[rule_format, OF k0]
  note step1 = steps[rule_format, OF k1]
  have st1: "l_gp (sts ! Suc 0) = 29000" "l_usedGas (sts ! Suc 0) = 21000"
    "l_feeAmount (sts ! Suc 0) = 42000" "ex_nonce (l_statedb (sts ! Suc 0)) 7 = 1"
    using step0[symmetric] init
    by (auto simp: ApplyTransaction_def ex_defs Let_def)
  have st2: "l_gp (sts ! Suc (Suc 0)) = 8000" "l_usedGas (sts ! Suc (Suc 0)) = 42000"
    "l_feeAmount (sts ! Suc (Suc 0)) = 84005" "ex_nonce (l_statedb (sts ! Suc (Suc 0))) 7 = 2"
    using step1[symmetric] st1
    by (auto simp: ApplyTransaction_def ex_defs Let_def)
  have two: "(2 :: nat) = Suc (Suc 0)" by simp
  have fin: "ex_engine () (ex_header 10) (l_statedb (sts ! 2)) ex_txs receipts 84005 = (Inr 84005, s)"
    using rest(3) st2 blk by (simp add: ex_fp_def two)
  have "length sts = 3" "length receipts = 2" using len rest blk by simp_all
  with h rest(2) init blk st1 st2 fin show ?thesis
    by (intro exI[of _ receipts] exI[of _ logs] exI[of _ s] exI[of _ sts]) (simp add: two)
qed

text \<open>
  C2. Let the transactions before \<open>tx\<close> in the block have succeeded, let the sender of
  \<open>tx\<close> be recovered and not denied. When the executor returns a result, reverted or
  not, \<open>ApplyTransaction\<close> returns a receipt whose success flag is the negation of the
  result's failure flag, and the loop goes on with the transactions after \<open>tx\<close>, the
  receipt appended. When the executor returns an error, \<open>ApplyTransaction\<close> returns
  that error with the counters untouched, and \<open>Process\<close> returns that error and no
  receipt.
\<close>

theorem failure_classes:
  fixes X :: "('s, 't, 'c, 'b, 'v) Extern" and fp :: "('s, 't, 'c, 'b, 'r) StateProcessor"
  assumes vmenv_def: "vmenv = NewEVM (NewEVMContext msg (header block) (bc fp)) (config fp) cfg"
    and msg: "AsMessage X (config fp) (Number (header block)) tx = Inr msg"
    and ok: "\<not> spec_denied X (Number (header block)) (From msg)"
    and blk: "transactions block = pre @ tx # post"
    and pre: "Process_loop X fp block cfg 0 pre (Process_init block statedb) = (None, st)"
    and prep: "prepared = Prepare X (spec_txhash X (config fp) (Number (header block)) tx)
                 (blockhash block) (int (length pre)) (l_statedb st)"
  shows "(\<forall>result gp1 s1.
            ApplyMessage X vmenv msg (l_gp st) prepared = (Inr result, gp1, s1) \<longrightarrow>
            (\<exists>r ug1 fee1.
               ApplyTransaction X (config fp) (bc fp) (l_gp st) prepared (header block) tx
                 (l_usedGas st) (l_feeAmount st) cfg = (Inr r, gp1, Finalise X True s1, ug1, fee1) \<and>
               Success r = (\<not> Failed result) \<and>
               Process_loop X fp block cfg 0 (transactions block) (Process_init block statedb) =
                 Process_loop X fp block cfg (Suc (length pre)) post
                   \<lparr>l_gp = gp1, l_statedb = Finalise X True s1, l_usedGas = ug1,
                    l_feeAmount = fee1, l_receipts = l_receipts st @ [r],
                    l_allLogs = l_allLogs st @ Logs r\<rparr>)) \<and>
         (\<forall>e gp1 s1.
            ApplyMessage X vmenv msg (l_gp st) prepared = (Inl e, gp1, s1) \<longrightarrow>
            ApplyTransaction X (config fp) (bc fp) (l_gp st) prepared (header block) tx
              (l_usedGas st) (l_feeAmount st) cfg = (Inl e, gp1, s1, l_usedGas st, l_feeAmount st) \<and>
            Process X fp block statedb cfg = (Inl e, s1))"
proof (intro conjI allI impI)
  fix result gp1 s1
  assume am: "ApplyMessage X vmenv msg (l_gp st) prepared = (Inr result, gp1, s1)"
  from ApplyTransaction_exec_Inr[OF msg ok am[unfolded vmenv_def]]
  obtain r where at: "ApplyTransaction X (config fp) (bc fp) (l_gp st) prepared (header block) tx
      (l_usedGas st) (l_feeAmount st) cfg =
      (Inr r, gp1, Finalise X True s1, l_usedGas st + UsedGas result,
       l_feeAmount st + uint (UsedGas result) * GasPrice msg
         + (case Fee msg of Some f \<Rightarrow> f | None \<Rightarrow> 0))"
    and sr: "Success r = (\<not> Failed result)"
    by blast
  from Process_continue[OF pre at[unfolded prep], of post] blk at sr
  show "\<exists>r ug1 fee1.
               ApplyTransaction X (config fp) (bc fp) (l_gp st) prepared (header block) tx
                 (l_usedGas st) (l_feeAmount st) cfg = (Inr r, gp1, Finalise X True s1, ug1, fee1) \<and>
               Success r = (\<not> Failed result) \<and>
               Process_loop X fp block cfg 0 (transactions block) (Process_init block statedb) =
                 Process_loop X fp block cfg (Suc (length pre)) post
                   \<lparr>l_gp = gp1, l_statedb = Finalise X True s1, l_usedGas = ug1,
                    l_feeAmount = fee1, l_receipts = l_receipts st @ [r],
                    l_allLogs = l_allLogs st @ Logs r\<rparr>"
    by auto
next
  fix e gp1 s1
  assume am: "ApplyMessage X vmenv msg (l_gp st) prepared = (Inl e, gp1, s1)"
  from ApplyTransaction_exec_Inl[OF msg ok am[unfolded vmenv_def]]
  show at: "ApplyTransaction X (config fp) (bc fp) (l_gp st) prepared (header block) tx
      (l_usedGas st) (l_feeAmount st) cfg = (Inl e, gp1, s1, l_usedGas st, l_feeAmount st)" .
  from Process_abort[OF blk pre at[unfolded prep]]
  show "Process X fp block statedb cfg = (Inl e, s1)" .
qed

theorem failure_classes_witness:
  "(\<exists>r gp1 s1 ug1 fee1.
      ApplyTransaction ex_X 50 () 50000 (Prepare ex_X 2000 77 0 ex_state) (ex_header 10)
        (ex_msg 7 None 0 (Some 5) [253], True) 0 0 () = (Inr r, gp1, s1, ug1, fee1) \<and>
      Success r = False) \<and>
   Process ex_X ex_fp
     (ex_block 10 [(NewMessage 7 (Some 8) 9 0 0 None 60000 2 [] True, True), hd ex_txs])
     ex_state () = (Inl ''gas limit reached'', Prepare ex_X 2000 77 0 ex_state)"
proof
  let ?m = "ex_msg 7 None 0 (Some 5) [253]"
  let ?blk = "ex_block 10 [(?m, True)]"
  let ?st = "Process_init ?blk ex_state"
  let ?p = "Prepare ex_X 2000 77 0 ex_state"
  let ?vm = "NewEVM (NewEVMContext ?m (header ?blk) (bc ex_fp)) (config ex_fp) ()"
  have msg: "AsMessage ex_X (config ex_fp) (Number (header ?blk)) (?m, True) = Inr ?m"
    by (simp add: ex_defs)
  have ok: "\<not> spec_denied ex_X (Number (header ?blk)) (From ?m)"
    by (simp add: spec_denied_def ex_defs)
  have blk: "transactions ?blk = [] @ (?m, True) # []"
    by (simp add: ex_defs)
  have pre: "Process_loop ex_X ex_fp ?blk () 0 [] (Process_init ?blk ex_state) = (None, ?st)"
    by simp
  have prep: "?p = Prepare ex_X (spec_txhash ex_X (config ex_fp) (Number (header ?blk)) (?m, True))
                 (blockhash ?blk) (int (length ([] :: ExTx list))) (l_statedb ?st)"
    by (simp add: spec_txhash_def Process_init_def ex_defs)
  have "\<exists>result gp1 s1. ApplyMessage ex_X ?vm ?m (l_gp ?st) ?p = (Inr result, gp1, s1) \<and> Failed result"
    by (simp add: Process_init_def ex_defs)
  then obtain result gp1 s1 where
    am: "ApplyMessage ex_X ?vm ?m (l_gp ?st) ?p = (Inr result, gp1, s1)" and f: "Failed result"
    by blast
  from failure_classes[OF refl msg ok blk pre prep, THEN conjunct1, rule_format, OF am] f
  show "\<exists>r gp1 s1 ug1 fee1.
      ApplyTransaction ex_X 50 () 50000 (Prepare ex_X 2000 77 0 ex_state) (ex_header 10)
        (ex_msg 7 None 0 (Some 5) [253], True) 0 0 () = (Inr r, gp1, s1, ug1, fee1) \<and>
      Success r = False"
    by (auto simp: Process_init_def ex_block_def ex_fp_def AddGas_def ex_header_def)
next
  let ?m = "NewMessage 7 (Some 8) 9 0 0 None 60000 2 [] True"
  let ?blk = "ex_block 10 [(?m, True), hd ex_txs]"
  let ?st = "Process_init ?blk ex_state"
  let ?p = "Prepare ex_X 2000 77 0 ex_state"
  let ?vm = "NewEVM (NewEVMContext ?m (header ?blk) (bc ex_fp)) (config ex_fp) ()"
  have msg: "AsMessage ex_X (config ex_fp) (Number (header ?blk)) (?m, True) = Inr ?m"
    by (simp add: ex_defs)
  have ok: "\<not> spec_denied ex_X (Number (header ?blk)) (From ?m)"
    by (simp add: spec_denied_def ex_defs)
  have blk: "transactions ?blk = [] @ (?m, True) # [hd ex_txs]"
    by (simp add: ex_defs)
  have pre: "Process_loop ex_X ex_fp ?blk () 0 [] (Process_init ?blk ex_state) = (None, ?st)"
    by simp
  have prep: "?p = Prepare ex_X (spec_txhash ex_X (config ex_fp) (Number (header ?blk)) (?m, True))
                 (blockhash ?blk) (int (length ([] :: ExTx list))) (l_statedb ?st)"
    by (simp add: spec_txhash_def Process_init_def ex_defs)
  have am: "ApplyMessage ex_X ?vm ?m (l_gp ?st) ?p = (Inl ''gas limit reached'', 50000, ?p)"
    by (simp add: Process_init_def ex_defs)
  from failure_classes[OF refl msg ok blk pre prep, THEN conjunct2, rule_format, OF am]
  show "Process ex_X ex_fp ?blk ex_state () = (Inl ''gas limit reached'', ?p)"
    by simp
qed

text \<open>
  C3. In a successful run of \<open>Process\<close>, for the transaction at every index \<open>k\<close>, let
  \<open>h\<close> be the hash that \<open>IsTIP10\<close> selects at the block's height (the new derivation
  when it holds, the legacy one otherwise). Then \<open>Prepare\<close> is called with \<open>h\<close> on the
  state that the transactions before left, \<open>ApplyTransaction\<close> runs on the prepared state
  and returns the receipt at index \<open>k\<close>, the receipt's transaction hash is \<open>h\<close>, and
  its logs are \<open>GetLogs\<close> of \<open>h\<close> on the state after the transaction.
\<close>

theorem hash_scheme_consistent:
  assumes ok: "Process X fp block statedb cfg = (Inr (receipts, logs, gas, infos), statedb')"
    and k: "k < length (transactions block)"
    and h: "h = (if IsTIP10 X (config fp) (Number (header block)) then Hash X (transactions block ! k)
                 else HashOld X (transactions block ! k))"
  shows "\<exists>stk gp1 s1 ug1 fee1.
           Process_loop X fp block cfg 0 (take k (transactions block))
             (Process_init block statedb) = (None, stk) \<and>
           ApplyTransaction X (config fp) (bc fp) (l_gp stk)
             (Prepare X h (blockhash block) (int k) (l_statedb stk))
             (header block) (transactions block ! k) (l_usedGas stk) (l_feeAmount stk) cfg
             = (Inr (receipts ! k), gp1, s1, ug1, fee1) \<and>
           TxHash (receipts ! k) = h \<and> Logs (receipts ! k) = GetLogs X s1 h"
proof -
  from Process_InrD[OF ok] obtain st where
    run: "Process_loop X fp block cfg 0 (transactions block) (Process_init block statedb) = (None, st)"
    and rs: "receipts = l_receipts st"
    by blast
  have h': "h = spec_txhash X (config fp) (Number (header block)) (transactions block ! k)"
    using h by (simp add: spec_txhash_def)
  from Process_loop_nth[OF run k] obtain stk gp1 s1 ug1 fee1 where
    pre: "Process_loop X fp block cfg 0 (take k (transactions block))
             (Process_init block statedb) = (None, stk)"
    and at: "ApplyTransaction X (config fp) (bc fp) (l_gp stk)
             (Prepare X h (blockhash block) (int k) (l_statedb stk))
             (header block) (transactions block ! k) (l_usedGas stk) (l_feeAmount stk) cfg
             = (Inr (receipts ! k), gp1, s1, ug1, fee1)"
    unfolding h' rs by (auto simp: Process_init_simps)
  from ApplyTransaction_InrD[OF at] have
    "TxHash (receipts ! k) = h" "Logs (receipts ! k) = GetLogs X s1 h"
    unfolding h' by blast+
  with pre at show ?thesis by blast
qed

theorem hash_scheme_consistent_witness:
  "(\<exists>receipts logs gas infos s.
     Process ex_X ex_fp (ex_block 60 ex_txs) ex_state () = (Inr (receipts, logs, gas, infos), s) \<and>
     TxHash (receipts ! 1) = 1001) \<and>
   (\<exists>receipts logs gas infos s.
     Process ex_X ex_fp (ex_block 10 ex_txs) ex_state () = (Inr (receipts, logs, gas, infos), s) \<and>
     TxHash (receipts ! 1) = 2001)"
proof
  from ex_run60 obtain receipts logs s where
    h: "Process ex_X ex_fp (ex_block 60 ex_txs) ex_state () = (Inr (receipts, logs, 42000, 84005), s)"
    by blast
  have k: "1 < length (transactions (ex_block 60 ex_txs))" by (simp add: ex_defs)
  from hash_scheme_consistent[OF h k refl]
  have "TxHash (receipts ! 1) = 1001"
    by (auto simp: ex_defs)
  with h show "\<exists>receipts logs gas infos s.
     Process ex_X ex_fp (ex_block 60 ex_txs) ex_state () = (Inr (receipts, logs, gas, infos), s) \<and>
     TxHash (receipts ! 1) = 1001" by blast
next
  from ex_run obtain receipts logs s where
    h: "Process ex_X ex_fp (ex_block 10 ex_txs) ex_state () = (Inr (receipts, logs, 42000, 84005), s)"
    by blast
  have k: "1 < length (transactions (ex_block 10 ex_txs))" by (simp add: ex_defs)
  from hash_scheme_consistent[OF h k refl]
  have "TxHash (receipts ! 1) = 2001"
    by (auto simp: ex_defs)
  with h show "\<exists>receipts logs gas infos s.
     Process ex_X ex_fp (ex_block 10 ex_txs) ex_state () = (Inr (receipts, logs, gas, infos), s) \<and>
     TxHash (receipts ! 1) = 2001" by blast
qed

text \<open>
  C10. When \<open>ApplyTransaction\<close> returns an error, the used-gas counter and the fee
  accumulator are as on entry, and the error is the one of signature recovery, of a
  deny-list or of the executor.
\<close>

theorem error_leaves_counters:
  assumes "ApplyTransaction X c b gp s h tx ug fee cfg = (Inl e, gp', s', ug', fee')"
  shows "ug' = ug \<and> fee' = fee \<and>
         (AsMessage X c (Number h) tx = Inl e \<or>
          (\<exists>msg. AsMessage X c (Number h) tx = Inr msg \<and>
             (ForbidAddress X (From msg) = Some e \<or> ForbidAddress2 X (From msg) = Some e \<or>
              ApplyMessage X (NewEVM (NewEVMContext msg h b) c cfg) msg gp s = (Inl e, gp', s'))))"
  using ApplyTransaction_InlD[OF assms] by blast

theorem error_leaves_counters_witness:
  "ApplyTransaction ex_X 50 () 20000 ex_state (ex_header 10) (ex_msg 7 (Some 8) 0 None [], True)
     5 9 () = (Inl ''gas limit reached'', 20000, ex_state, 5, 9) \<and>
   ApplyTransaction ex_X 50 () 20000 ex_state (ex_header 10) (ex_msg 7 (Some 8) 0 None [], False)
     5 9 () = (Inl ''invalid sender'', 20000, ex_state, 5, 9) \<and>
   ApplyTransaction ex_X 50 () 20000 ex_state (ex_header 7000000) (ex_msg 666 (Some 8) 0 None [], True)
     5 9 () = (Inl ''forbidden address'', 20000, ex_state, 5, 9)"
proof -
  have 1: "ApplyTransaction ex_X 50 () 20000 ex_state (ex_header 10) (ex_msg 7 (Some 8) 0 None [], True)
     5 9 () = (Inl ''gas limit reached'', 20000, ex_state,
       fst (snd (snd (snd (ApplyTransaction ex_X 50 () 20000 ex_state (ex_header 10)
         (ex_msg 7 (Some 8) 0 None [], True) 5 9 ())))),
       snd (snd (snd (snd (ApplyTransaction ex_X 50 () 20000 ex_state (ex_header 10)
         (ex_msg 7 (Some 8) 0 None [], True) 5 9 ())))))"
    by (simp add: ApplyTransaction_def ex_defs)
  have 2: "ApplyTransaction ex_X 50 () 20000 ex_state (ex_header 10) (ex_msg 7 (Some 8) 0 None [], False)
     5 9 () = (Inl ''invalid sender'', 20000, ex_state,
       fst (snd (snd (snd (ApplyTransaction ex_X 50 () 20000 ex_state (ex_header 10)
         (ex_msg 7 (Some 8) 0 None [], False) 5 9 ())))),
       snd (snd (snd (snd (ApplyTransaction ex_X 50 () 20000 ex_state (ex_header 10)
         (ex_msg 7 (Some 8) 0 None [], False) 5 9 ())))))"
    by (simp add: ApplyTransaction_def ex_defs)
  have 3: "ApplyTransaction ex_X 50 () 20000 ex_state (ex_header 7000000)
     (ex_msg 666 (Some 8) 0 None [], True)
     5 9 () = (Inl ''forbidden address'', 20000, ex_state,
       fst (snd (snd (snd (ApplyTransaction ex_X 50 () 20000 ex_state (ex_header 7000000)
         (ex_msg 666 (Some 8) 0 None [], True) 5 9 ())))),
       snd (snd (snd (snd (ApplyTransaction ex_X 50 () 20000 ex_state (ex_header 7000000)
         (ex_msg 666 (Some 8) 0 None [], True) 5 9 ())))))"
    by (simp add: ApplyTransaction_def ex_defs)
  from error_leaves_counters[OF 1] error_leaves_counters[OF 2] error_leaves_counters[OF 3] 1 2 3
  show ?thesis by simp
qed

text \<open>
  C4. Let the transactions before \<open>tx\<close> in the block have succeeded and let the sender of
  \<open>tx\<close> be recovered. Above height 6638000 an error of the first deny-list for the sender
  is the result of \<open>ApplyTransaction\<close>, with the gas pool, the state and the counters
  untouched, and \<open>Process\<close> returns that error and no receipt; above height 24642000 the
  same holds for an error of the second deny-list when the first one lets the sender pass.
  At heights up to 6638000 the result of \<open>ApplyTransaction\<close> does not depend on the
  deny-lists at all, and at heights up to 24642000 it does not depend on the second one.
  The second threshold is above the first.
\<close>

theorem deny_list_gate:
  assumes msg: "AsMessage X (config fp) (Number (header block)) tx = Inr msg"
    and blk: "transactions block = pre @ tx # post"
    and pre: "Process_loop X fp block cfg 0 pre (Process_init block statedb) = (None, st)"
    and prep: "prepared = Prepare X (spec_txhash X (config fp) (Number (header block)) tx)
                 (blockhash block) (int (length pre)) (l_statedb st)"
  shows "(6638000 < Number (header block) \<and> ForbidAddress X (From msg) = Some e \<longrightarrow>
            ApplyTransaction X (config fp) (bc fp) (l_gp st) prepared (header block) tx
              (l_usedGas st) (l_feeAmount st) cfg
              = (Inl e, l_gp st, prepared, l_usedGas st, l_feeAmount st) \<and>
            Process X fp block statedb cfg = (Inl e, prepared)) \<and>
         (24642000 < Number (header block) \<and> ForbidAddress X (From msg) = None \<and>
          ForbidAddress2 X (From msg) = Some e \<longrightarrow>
            ApplyTransaction X (config fp) (bc fp) (l_gp st) prepared (header block) tx
              (l_usedGas st) (l_feeAmount st) cfg
              = (Inl e, l_gp st, prepared, l_usedGas st, l_feeAmount st) \<and>
            Process X fp block statedb cfg = (Inl e, prepared)) \<and>
         (Number (header block) \<le> 6638000 \<longrightarrow>
            ApplyTransaction (X\<lparr>ForbidAddress := fa, ForbidAddress2 := fb\<rparr>) (config fp) (bc fp)
              gp s (header block) tx ug fee cfg =
            ApplyTransaction X (config fp) (bc fp) gp s (header block) tx ug fee cfg) \<and>
         (Number (header block) \<le> 24642000 \<longrightarrow>
            ApplyTransaction (X\<lparr>ForbidAddress2 := fb\<rparr>) (config fp) (bc fp)
              gp s (header block) tx ug fee cfg =
            ApplyTransaction X (config fp) (bc fp) gp s (header block) tx ug fee cfg) \<and>
         (6638000 :: int) < 24642000"
proof (intro conjI impI)
  assume a: "6638000 < Number (header block) \<and> ForbidAddress X (From msg) = Some e"
  then show at: "ApplyTransaction X (config fp) (bc fp) (l_gp st) prepared (header block) tx
              (l_usedGas st) (l_feeAmount st) cfg
              = (Inl e, l_gp st, prepared, l_usedGas st, l_feeAmount st)"
    using ApplyTransaction_ForbidAddress[OF msg] by blast
  show "Process X fp block statedb cfg = (Inl e, prepared)"
    by (rule Process_abort[OF blk pre at[unfolded prep], folded prep])
next
  assume a: "24642000 < Number (header block) \<and> ForbidAddress X (From msg) = None \<and>
          ForbidAddress2 X (From msg) = Some e"
  then show at: "ApplyTransaction X (config fp) (bc fp) (l_gp st) prepared (header block) tx
              (l_usedGas st) (l_feeAmount st) cfg
              = (Inl e, l_gp st, prepared, l_usedGas st, l_feeAmount st)"
    using ApplyTransaction_ForbidAddress2[OF msg] by blast
  show "Process X fp block statedb cfg = (Inl e, prepared)"
    by (rule Process_abort[OF blk pre at[unfolded prep], folded prep])
next
  assume "Number (header block) \<le> 6638000"
  then show "ApplyTransaction (X\<lparr>ForbidAddress := fa, ForbidAddress2 := fb\<rparr>) (config fp) (bc fp)
              gp s (header block) tx ug fee cfg =
            ApplyTransaction X (config fp) (bc fp) gp s (header block) tx ug fee cfg"
    by (rule ApplyTransaction_low_height)
next
  assume "Number (header block) \<le> 24642000"
  then show "ApplyTransaction (X\<lparr>ForbidAddress2 := fb\<rparr>) (config fp) (bc fp)
              gp s (header block) tx ug fee cfg =
            ApplyTransaction X (config fp) (bc fp) gp s (header block) tx ug fee cfg"
    by (rule ApplyTransaction_mid_height)
qed simp

theorem deny_list_gate_witness:
  "Process ex_X ex_fp (ex_block 7000000 [(ex_msg 666 (Some 8) 0 None [], True)]) ex_state ()
     = (Inl ''forbidden address'', Prepare ex_X 1000 77 0 ex_state) \<and>
   Process ex_X ex_fp (ex_block 25000000 [(ex_msg 777 (Some 8) 0 None [], True)]) ex_state ()
     = (Inl ''forbidden address 2'', Prepare ex_X 1000 77 0 ex_state) \<and>
   ApplyTransaction (ex_X\<lparr>ForbidAddress := (\<lambda>a. Some ''x''), ForbidAddress2 := (\<lambda>a. Some ''y'')\<rparr>)
       50 () 50000 ex_state (ex_header 6638000) (ex_msg 666 (Some 8) 0 None [], True) 0 0 ()
     = ApplyTransaction ex_X 50 () 50000 ex_state (ex_header 6638000)
         (ex_msg 666 (Some 8) 0 None [], True) 0 0 ()"
proof (intro conjI)
  let ?m = "ex_msg 666 (Some 8) 0 None []"
  let ?blk = "ex_block 7000000 [(?m, True)]"
  let ?st = "Process_init ?blk ex_state"
  let ?p = "Prepare ex_X 1000 77 0 ex_state"
  have msg: "AsMessage ex_X (config ex_fp) (Number (header ?blk)) (?m, True) = Inr ?m"
    by (simp add: ex_defs)
  have blk: "transactions ?blk = [] @ (?m, True) # []"
    by (simp add: ex_defs)
  have pre: "Process_loop ex_X ex_fp ?blk () 0 [] (Process_init ?blk ex_state) = (None, ?st)"
    by simp
  have prep: "?p = Prepare ex_X (spec_txhash ex_X (config ex_fp) (Number (header ?blk)) (?m, True))
                 (blockhash ?blk) (int (length ([] :: ExTx list))) (l_statedb ?st)"
    by (simp add: spec_txhash_def Process_init_def ex_defs)
  have a: "6638000 < Number (header ?blk) \<and> ForbidAddress ex_X (From ?m) = Some ''forbidden address''"
    by (simp add: ex_defs)
  from deny_list_gate[OF msg blk pre prep, THEN conjunct1, rule_format, OF a]
  show "Process ex_X ex_fp ?blk ex_state () = (Inl ''forbidden address'', ?p)"
    by simp
next
  let ?m = "ex_msg 777 (Some 8) 0 None []"
  let ?blk = "ex_block 25000000 [(?m, True)]"
  let ?st = "Process_init ?blk ex_state"
  let ?p = "Prepare ex_X 1000 77 0 ex_state"
  have msg: "AsMessage ex_X (config ex_fp) (Number (header ?blk)) (?m, True) = Inr ?m"
    by (simp add: ex_defs)
  have blk: "transactions ?blk = [] @ (?m, True) # []"
    by (simp add: ex_defs)
  have pre: "Process_loop ex_X ex_fp ?blk () 0 [] (Process_init ?blk ex_state) = (None, ?st)"
    by simp
  have prep: "?p = Prepare ex_X (spec_txhash ex_X (config ex_fp) (Number (header ?blk)) (?m, True))
                 (blockhash ?blk) (int (length ([] :: ExTx list))) (l_statedb ?st)"
    by (simp add: spec_txhash_def Process_init_def ex_defs)
  have a: "24642000 < Number (header ?blk) \<and> ForbidAddress ex_X (From ?m) = None \<and>
           ForbidAddress2 ex_X (From ?m) = Some ''forbidden address 2''"
    by (simp add: ex_defs)
  from deny_list_gate[OF msg blk pre prep, THEN conjunct2, THEN conjunct1, rule_format, OF a]
  show "Process ex_X ex_fp ?blk ex_state () = (Inl ''forbidden address 2'', ?p)"
    by simp
next
  let ?m = "ex_msg 666 (Some 8) 0 None []"
  let ?blk = "ex_block 6638000 [(?m, True)]"
  let ?st = "Process_init ?blk ex_state"
  let ?p = "Prepare ex_X 1000 77 0 ex_state"
  have msg: "AsMessage ex_X (config ex_fp) (Number (header ?blk)) (?m, True) = Inr ?m"
    by (simp add: ex_defs)
  have blk: "transactions ?blk = [] @ (?m, True) # []"
    by (simp add: ex_defs)
  have pre: "Process_loop ex_X ex_fp ?blk () 0 [] (Process_init ?blk ex_state) = (None, ?st)"
    by simp
  have prep: "?p = Prepare ex_X (spec_txhash ex_X (config ex_fp) (Number (header ?blk)) (?m, True))
                 (blockhash ?blk) (int (length ([] :: ExTx list))) (l_statedb ?st)"
    by (simp add: spec_txhash_def Process_init_def ex_defs)
  have a: "Number (header ?blk) \<le> 6638000"
    by (simp add: ex_defs)
  from deny_list_gate[where fa = "\<lambda>a. Some ''x''" and fb = "\<lambda>a. Some ''y''" and gp = 50000
      and s = ex_state and ug = 0 and fee = 0,
      OF msg blk pre prep, THEN conjunct2, THEN conjunct2, THEN conjunct1, rule_format, OF a]
  show "ApplyTransaction (ex_X\<lparr>ForbidAddress := (\<lambda>a. Some ''x''), ForbidAddress2 := (\<lambda>a. Some ''y'')\<rparr>)
       50 () 50000 ex_state (ex_header 6638000) (?m, True) 0 0 ()
     = ApplyTransaction ex_X 50 () 50000 ex_state (ex_header 6638000) (?m, True) 0 0 ()"
    by (simp add: ex_block_def ex_fp_def)
qed

text \<open>
  C5. A receipt that \<open>ApplyTransaction\<close> returns has: the hash selected by \<open>IsTIP10\<close>
  at the header's height; the success flag "not failed" of the executor's result; as
  cumulative gas the used-gas counter on entry plus the result's gas (64-bit addition); as
  gas used the result's gas; the logs that \<open>GetLogs\<close> returns for that hash on the state
  after \<open>Finalise\<close>; the bloom filter that \<open>CreateBloom\<close> computes of the receipt as it
  is once the logs are set; a contract address only when the message has no recipient,
  then \<open>CreateAddress\<close> of the sender and the transaction's nonce, else the zero address;
  block hash and transaction index as the state database reports them and the header's
  number. When \<open>Prepare\<close> stores the index it is given and the executor and \<open>Finalise\<close>
  leave it alone, the receipt at index \<open>k\<close> of a successful \<open>Process\<close> has transaction
  index \<open>k\<close>.
\<close>

theorem receipt_construction:
  "(ApplyTransaction X (config fp) (bc fp) gp s h tx ug fee cfg = (Inr r, gp', s', ug', fee') \<longrightarrow>
      (\<exists>msg result s1.
         AsMessage X (config fp) (Number h) tx = Inr msg \<and>
         ApplyMessage X (NewEVM (NewEVMContext msg h (bc fp)) (config fp) cfg) msg gp s
           = (Inr result, gp', s1) \<and>
         s' = Finalise X True s1 \<and>
         TxHash r = (if IsTIP10 X (config fp) (Number h) then Hash X tx else HashOld X tx) \<and>
         Success r = (\<not> Failed result) \<and>
         CumulativeGasUsed r = ug + UsedGas result \<and>
         GasUsed r = UsedGas result \<and>
         Logs r = GetLogs X s' (TxHash r) \<and>
         Bloom r = CreateBloom X
                     [r\<lparr>Bloom := 0, BlockHash := 0, BlockNumber := 0, TransactionIndex := 0\<rparr>] \<and>
         ContractAddress r = (case To msg of None \<Rightarrow> CreateAddress X (From msg) (TxNonce X tx)
                              | Some a \<Rightarrow> 0) \<and>
         BlockHash r = StateBlockHash X s' \<and> BlockNumber r = Number h \<and>
         TransactionIndex r = word_of_int (TxIndex X s'))) \<and>
   ((\<forall>hh bh i st. TxIndex X (Prepare X hh bh i st) = i) \<and>
    (\<forall>vmenv m g st. TxIndex X (snd (snd (ApplyMessage X vmenv m g st))) = TxIndex X st) \<and>
    (\<forall>d st. TxIndex X (Finalise X d st) = TxIndex X st) \<and>
    Process X fp block statedb cfg = (Inr (receipts, logs, gas, infos), statedb') \<and>
    k < length (transactions block) \<longrightarrow>
      TransactionIndex (receipts ! k) = of_nat k)"
proof (intro conjI impI)
  assume at: "ApplyTransaction X (config fp) (bc fp) gp s h tx ug fee cfg = (Inr r, gp', s', ug', fee')"
  from ApplyTransaction_InrD[OF at]
  show "\<exists>msg result s1.
         AsMessage X (config fp) (Number h) tx = Inr msg \<and>
         ApplyMessage X (NewEVM (NewEVMContext msg h (bc fp)) (config fp) cfg) msg gp s
           = (Inr result, gp', s1) \<and>
         s' = Finalise X True s1 \<and>
         TxHash r = (if IsTIP10 X (config fp) (Number h) then Hash X tx else HashOld X tx) \<and>
         Success r = (\<not> Failed result) \<and>
         CumulativeGasUsed r = ug + UsedGas result \<and>
         GasUsed r = UsedGas result \<and>
         Logs r = GetLogs X s' (TxHash r) \<and>
         Bloom r = CreateBloom X
                     [r\<lparr>Bloom := 0, BlockHash := 0, BlockNumber := 0, TransactionIndex := 0\<rparr>] \<and>
         ContractAddress r = (case To msg of None \<Rightarrow> CreateAddress X (From msg) (TxNonce X tx)
                              | Some a \<Rightarrow> 0) \<and>
         BlockHash r = StateBlockHash X s' \<and> BlockNumber r = Number h \<and>
         TransactionIndex r = word_of_int (TxIndex X s')"
    unfolding spec_txhash_def by (elim exE conjE, intro exI conjI) simp_all
next
  assume a: "(\<forall>hh bh i st. TxIndex X (Prepare X hh bh i st) = i) \<and>
    (\<forall>vmenv m g st. TxIndex X (snd (snd (ApplyMessage X vmenv m g st))) = TxIndex X st) \<and>
    (\<forall>d st. TxIndex X (Finalise X d st) = TxIndex X st) \<and>
    Process X fp block statedb cfg = (Inr (receipts, logs, gas, infos), statedb') \<and>
    k < length (transactions block)"
  then have law1: "\<And>hh bh i st. TxIndex X (Prepare X hh bh i st) = i"
    and law2: "\<And>vmenv m g st. TxIndex X (snd (snd (ApplyMessage X vmenv m g st))) = TxIndex X st"
    and law3: "\<And>d st. TxIndex X (Finalise X d st) = TxIndex X st"
    and ok: "Process X fp block statedb cfg = (Inr (receipts, logs, gas, infos), statedb')"
    and k: "k < length (transactions block)"
    by blast+
  from Process_InrD[OF ok] obtain st where
    run: "Process_loop X fp block cfg 0 (transactions block) (Process_init block statedb) = (None, st)"
    and rs: "receipts = l_receipts st"
    by blast
  from Process_loop_nth[OF run k] obtain stk gp1 s1 ug1 fee1 where
    "Process_loop X fp block cfg 0 (take k (transactions block)) (Process_init block statedb)
       = (None, stk)"
    and at: "ApplyTransaction X (config fp) (bc fp) (l_gp stk)
             (Prepare X (spec_txhash X (config fp) (Number (header block)) (transactions block ! k))
                (blockhash block) (int k) (l_statedb stk))
             (header block) (transactions block ! k) (l_usedGas stk) (l_feeAmount stk) cfg
             = (Inr (receipts ! k), gp1, s1, ug1, fee1)"
    unfolding rs by (auto simp: Process_init_simps)
  from ApplyTransaction_InrD[OF at] obtain msg and result :: ExecutionResult and s2 where
    am: "ApplyMessage X (NewEVM (NewEVMContext msg (header block) (bc fp)) (config fp) cfg) msg
           (l_gp stk)
           (Prepare X (spec_txhash X (config fp) (Number (header block)) (transactions block ! k))
                (blockhash block) (int k) (l_statedb stk)) = (Inr result, gp1, s2)"
    and s1: "s1 = Finalise X True s2"
    and ti: "TransactionIndex (receipts ! k) = word_of_int (TxIndex X s1)"
    by blast
  have "TxIndex X s1 = TxIndex X s2" using s1 law3 by simp
  also have "\<dots> = TxIndex X (Prepare X (spec_txhash X (config fp) (Number (header block))
                (transactions block ! k)) (blockhash block) (int k) (l_statedb stk))"
    using law2[of "NewEVM (NewEVMContext msg (header block) (bc fp)) (config fp) cfg" msg
        "l_gp stk" "Prepare X (spec_txhash X (config fp) (Number (header block))
                (transactions block ! k)) (blockhash block) (int k) (l_statedb stk)"]
    by (simp add: am)
  also have "\<dots> = int k" by (rule law1)
  finally show "TransactionIndex (receipts ! k) = of_nat k"
    using ti by simp
qed

theorem receipt_construction_witness:
  "(\<exists>r gp' s' ug' fee'.
     ApplyTransaction ex_X 50 () 50000 (Prepare ex_X 2000 77 0 ex_state)
       (ex_header 10) (ex_msg 7 None 0 (Some 5) [253], True) 0 0 () = (Inr r, gp', s', ug', fee') \<and>
     TxHash r = 2000 \<and> \<not> Success r \<and> CumulativeGasUsed r = 21000 \<and> GasUsed r = 21000 \<and>
     ContractAddress r = 7001 \<and> BlockHash r = 77 \<and> BlockNumber r = 10 \<and>
     TransactionIndex r = 0 \<and> length (Logs r) = 1) \<and>
   (\<exists>receipts logs gas infos s.
     Process ex_X ex_fp (ex_block 10 ex_txs) ex_state () = (Inr (receipts, logs, gas, infos), s) \<and>
     TransactionIndex (receipts ! 1) = 1)"
proof
  from ex_create obtain r gp' s' ug' fee' where
    at: "ApplyTransaction ex_X (config ex_fp) (bc ex_fp) 50000 (Prepare ex_X 2000 77 0 ex_state)
       (ex_header 10) (ex_msg 7 None 0 (Some 5) [253], True) 0 0 () = (Inr r, gp', s', ug', fee')"
    by blast
  from receipt_construction[where X = ex_X and fp = ex_fp, THEN conjunct1, rule_format, OF at]
  obtain msg and result :: ExecutionResult and s1 where
    m: "AsMessage ex_X (config ex_fp) (Number (ex_header 10))
          (ex_msg 7 None 0 (Some 5) [253], True) = Inr msg"
    and am: "ApplyMessage ex_X (NewEVM (NewEVMContext msg (ex_header 10) (bc ex_fp)) (config ex_fp) ())
          msg 50000 (Prepare ex_X 2000 77 0 ex_state) = (Inr result, gp', s1)"
    and f: "s' = Finalise ex_X True s1"
       "TxHash r = (if IsTIP10 ex_X (config ex_fp) (Number (ex_header 10))
                    then Hash ex_X (ex_msg 7 None 0 (Some 5) [253], True)
                    else HashOld ex_X (ex_msg 7 None 0 (Some 5) [253], True))"
       "Success r = (\<not> Failed result)" "CumulativeGasUsed r = 0 + UsedGas result"
       "GasUsed r = UsedGas result" "Logs r = GetLogs ex_X s' (TxHash r)"
       "ContractAddress r = (case To msg of
          None \<Rightarrow> CreateAddress ex_X (From msg) (TxNonce ex_X (ex_msg 7 None 0 (Some 5) [253], True))
        | Some a \<Rightarrow> 0)"
       "BlockHash r = StateBlockHash ex_X s'" "BlockNumber r = Number (ex_header 10)"
       "TransactionIndex r = word_of_int (TxIndex ex_X s')"
    by blast
  from m have msg: "msg = ex_msg 7 None 0 (Some 5) [253]"
    by (simp add: ex_defs)
  from am have res: "UsedGas result = 21000" "Failed result"
    and s1: "ex_bhash s1 = 77" "ex_txIndex s1 = 0" "length (ex_logs s1 2000) = 1"
    unfolding msg by (auto simp: ex_defs)
  from f res s1 have "TxHash r = 2000" "\<not> Success r" "CumulativeGasUsed r = 21000"
    "GasUsed r = 21000" "ContractAddress r = 7001" "BlockHash r = 77" "BlockNumber r = 10"
    "TransactionIndex r = 0" "length (Logs r) = 1"
    unfolding msg by (simp_all add: ex_defs)
  with at show "\<exists>r gp' s' ug' fee'.
     ApplyTransaction ex_X 50 () 50000 (Prepare ex_X 2000 77 0 ex_state)
       (ex_header 10) (ex_msg 7 None 0 (Some 5) [253], True) 0 0 () = (Inr r, gp', s', ug', fee') \<and>
     TxHash r = 2000 \<and> \<not> Success r \<and> CumulativeGasUsed r = 21000 \<and> GasUsed r = 21000 \<and>
     ContractAddress r = 7001 \<and> BlockHash r = 77 \<and> BlockNumber r = 10 \<and>
     TransactionIndex r = 0 \<and> length (Logs r) = 1"
    by (auto simp: ex_fp_def)
next
  from ex_run obtain receipts logs s where
    h: "Process ex_X ex_fp (ex_block 10 ex_txs) ex_state () = (Inr (receipts, logs, 42000, 84005), s)"
    by blast
  have laws: "(\<forall>hh bh i st. TxIndex ex_X (Prepare ex_X hh bh i st) = i) \<and>
    (\<forall>vmenv m g st. TxIndex ex_X (snd (snd (ApplyMessage ex_X vmenv m g st))) = TxIndex ex_X st) \<and>
    (\<forall>d st. TxIndex ex_X (Finalise ex_X d st) = TxIndex ex_X st)"
    by (simp add: ex_X_def ex_ApplyMessage_def)
  have k: "1 < length (transactions (ex_block 10 ex_txs))" by (simp add: ex_defs)
  from receipt_construction[where X = ex_X and fp = ex_fp and k = 1, THEN conjunct2, rule_format,
      OF conjI[OF laws[THEN conjunct1] conjI[OF laws[THEN conjunct2, THEN conjunct1]
           conjI[OF laws[THEN conjunct2, THEN conjunct2] conjI[OF h k]]]]]
  have "TransactionIndex (receipts ! 1) = 1" by simp
  with h show "\<exists>receipts logs gas infos s.
     Process ex_X ex_fp (ex_block 10 ex_txs) ex_state () = (Inr (receipts, logs, gas, infos), s) \<and>
     TransactionIndex (receipts ! 1) = 1" by blast
qed

text \<open>
  C6. When \<open>ApplyTransaction\<close> succeeds, the state it leaves is \<open>Finalise\<close> of the state
  the executor left, the used-gas counter has grown by the result's gas (64-bit addition,
  exact when the sum fits in 64 bits), and the fee accumulator by gas used times gas price plus the message's fee when it has
  one. When \<open>Process\<close> succeeds, the fee total that the engine's \<open>Finalize\<close> was given is
  the sum of these amounts over the block's transactions.
\<close>

theorem fee_accounting:
  "(ApplyTransaction X (config fp) (bc fp) gp s h tx ug fee cfg = (Inr r, gp', s', ug', fee') \<longrightarrow>
      (\<exists>msg result s1.
         AsMessage X (config fp) (Number h) tx = Inr msg \<and>
         ApplyMessage X (NewEVM (NewEVMContext msg h (bc fp)) (config fp) cfg) msg gp s
           = (Inr result, gp', s1) \<and>
         s' = Finalise X True s1 \<and>
         ug' = ug + UsedGas result \<and>
         (unat ug + unat (UsedGas result) < 2 ^ 64 \<longrightarrow>
            unat ug' = unat ug + unat (UsedGas result)) \<and>
         fee' = fee + uint (UsedGas result) * GasPrice msg
                  + (case Fee msg of Some f \<Rightarrow> f | None \<Rightarrow> 0))) \<and>
   (Process X fp block statedb cfg = (Inr (receipts, logs, gas, infos), statedb') \<longrightarrow>
      (\<exists>st. engine fp (bc fp) (header block) st (transactions block) receipts
               (sum_list (map2 (spec_tx_fee X (config fp) (Number (header block)))
                            (transactions block) receipts))
             = (Inr infos, statedb')))"
proof (intro conjI impI)
  assume at: "ApplyTransaction X (config fp) (bc fp) gp s h tx ug fee cfg = (Inr r, gp', s', ug', fee')"
  from ApplyTransaction_InrD[OF at]
  show "\<exists>msg result s1.
         AsMessage X (config fp) (Number h) tx = Inr msg \<and>
         ApplyMessage X (NewEVM (NewEVMContext msg h (bc fp)) (config fp) cfg) msg gp s
           = (Inr result, gp', s1) \<and>
         s' = Finalise X True s1 \<and>
         ug' = ug + UsedGas result \<and>
         (unat ug + unat (UsedGas result) < 2 ^ 64 \<longrightarrow>
            unat ug' = unat ug + unat (UsedGas result)) \<and>
         fee' = fee + uint (UsedGas result) * GasPrice msg
                  + (case Fee msg of Some f \<Rightarrow> f | None \<Rightarrow> 0)"
    by (elim exE conjE, intro exI conjI) (simp_all add: unat_add_no_overflow)
next
  assume ok: "Process X fp block statedb cfg = (Inr (receipts, logs, gas, infos), statedb')"
  from Process_InrD[OF ok] obtain st where
    run: "Process_loop X fp block cfg 0 (transactions block) (Process_init block statedb) = (None, st)"
    and rs: "receipts = l_receipts st"
    and fin: "engine fp (bc fp) (header block) (l_statedb st) (transactions block)
                (l_receipts st) (l_feeAmount st) = (Inr infos, statedb')"
    by blast
  from Process_loop_totals[OF run] have
    "l_feeAmount st = sum_list (map2 (spec_tx_fee X (config fp) (Number (header block)))
                            (transactions block) receipts)"
    unfolding rs by (auto simp: Process_init_simps)
  with fin rs show "\<exists>st. engine fp (bc fp) (header block) st (transactions block) receipts
               (sum_list (map2 (spec_tx_fee X (config fp) (Number (header block)))
                            (transactions block) receipts))
             = (Inr infos, statedb')"
    by auto
qed

theorem fee_accounting_witness:
  "(\<exists>r gp' s'.
     ApplyTransaction ex_X 50 () 50000 (Prepare ex_X 2000 77 0 ex_state)
       (ex_header 10) (ex_msg 7 None 0 (Some 5) [253], True) 0 0 () = (Inr r, gp', s', 21000, 42005) \<and>
     ex_finalised s' = 1) \<and>
   (\<exists>receipts logs gas s.
     Process ex_X ex_fp (ex_block 10 ex_txs) ex_state () = (Inr (receipts, logs, gas, 84005), s) \<and>
     sum_list (map2 (spec_tx_fee ex_X 50 10) ex_txs receipts) = 84005)"
proof
  from ex_create obtain r gp' s' ug' fee' where
    at: "ApplyTransaction ex_X (config ex_fp) (bc ex_fp) 50000 (Prepare ex_X 2000 77 0 ex_state)
       (ex_header 10) (ex_msg 7 None 0 (Some 5) [253], True) 0 0 () = (Inr r, gp', s', ug', fee')"
    by blast
  from fee_accounting[where X = ex_X and fp = ex_fp, THEN conjunct1, rule_format, OF at]
  obtain msg and result :: ExecutionResult and s1 where
    m: "AsMessage ex_X (config ex_fp) (Number (ex_header 10))
          (ex_msg 7 None 0 (Some 5) [253], True) = Inr msg"
    and am: "ApplyMessage ex_X (NewEVM (NewEVMContext msg (ex_header 10) (bc ex_fp)) (config ex_fp) ())
          msg 50000 (Prepare ex_X 2000 77 0 ex_state) = (Inr result, gp', s1)"
    and f: "s' = Finalise ex_X True s1" "ug' = 0 + UsedGas result"
      "fee' = 0 + uint (UsedGas result) * GasPrice msg + (case Fee msg of Some f \<Rightarrow> f | None \<Rightarrow> 0)"
    by blast
  from m have msg: "msg = ex_msg 7 None 0 (Some 5) [253]"
    by (simp add: ex_defs)
  from am have res: "UsedGas result = 21000" and s1: "ex_finalised s1 = 0"
    unfolding msg by (auto simp: ex_defs)
  from f res s1 have "ug' = 21000" "fee' = 42005" "ex_finalised s' = 1"
    unfolding msg by (simp_all add: ex_defs)
  with at show "\<exists>r gp' s'.
     ApplyTransaction ex_X 50 () 50000 (Prepare ex_X 2000 77 0 ex_state)
       (ex_header 10) (ex_msg 7 None 0 (Some 5) [253], True) 0 0 () = (Inr r, gp', s', 21000, 42005) \<and>
     ex_finalised s' = 1"
    by (auto simp: ex_fp_def)
next
  from ex_run obtain receipts logs s where
    h: "Process ex_X ex_fp (ex_block 10 ex_txs) ex_state () = (Inr (receipts, logs, 42000, 84005), s)"
    by blast
  from fee_accounting[where X = ex_X and fp = ex_fp, THEN conjunct2, rule_format, OF h]
  have "sum_list (map2 (spec_tx_fee ex_X 50 10) ex_txs receipts) = 84005"
    by (auto simp: ex_fp_def ex_block_def ex_header_def ex_engine_def)
  with h show "\<exists>receipts logs gas s.
     Process ex_X ex_fp (ex_block 10 ex_txs) ex_state () = (Inr (receipts, logs, gas, 84005), s) \<and>
     sum_list (map2 (spec_tx_fee ex_X 50 10) ex_txs receipts) = 84005" by blast
qed

text \<open>
  C7 fails on the code: \<open>ReadTransaction\<close> builds the reconstruction of the recovered
  message with nonce zero and the nonce check off, and then hands the recovered message
  itself to the executor, with the transaction's nonce, the nonce check and the payment
  address. For a transaction with nonce 5 on a state where the sender's nonce is 0 the
  executor rejects the nonce, where executing the reconstruction, as the claim has it,
  succeeds; for a transaction with nonce 0 the executor sees the payment address 9, not
  the zero address.
\<close>

theorem ReadTransaction_executes_recovered_message:
  "ReadTransaction ex_X 50 () ex_state (ex_header 10) (ex_msg 7 (Some 8) 5 None [], True) ()
     \<noteq> spec_ReadTransaction ex_X 50 () ex_state (ex_header 10) (ex_msg 7 (Some 8) 5 None [], True) () \<and>
   fst (ReadTransaction ex_X 50 () ex_state (ex_header 10) (ex_msg 7 (Some 8) 5 None [], True) ())
     = Inl ''invalid nonce'' \<and>
   fst (spec_ReadTransaction ex_X 50 () ex_state (ex_header 10) (ex_msg 7 (Some 8) 5 None [], True) ())
     = Inr ([], 21000) \<and>
   map LogTopics (ex_logs (snd (ReadTransaction ex_X 50 () ex_state (ex_header 10)
                                  (ex_msg 7 (Some 8) 0 None [], True) ())) 0) = [[9]] \<and>
   map LogTopics (ex_logs (snd (spec_ReadTransaction ex_X 50 () ex_state (ex_header 10)
                                  (ex_msg 7 (Some 8) 0 None [], True) ())) 0) = [[0]]"
proof -
  have 1: "fst (ReadTransaction ex_X 50 () ex_state (ex_header 10) (ex_msg 7 (Some 8) 5 None [], True) ())
     = Inl ''invalid nonce''"
    by (simp add: ReadTransaction_def ex_defs)
  have 2: "fst (spec_ReadTransaction ex_X 50 () ex_state (ex_header 10) (ex_msg 7 (Some 8) 5 None [], True) ())
     = Inr ([], 21000)"
    by (simp add: spec_ReadTransaction_def spec_denied_def ex_defs)
  have 3: "map LogTopics (ex_logs (snd (ReadTransaction ex_X 50 () ex_state (ex_header 10)
                                  (ex_msg 7 (Some 8) 0 None [], True) ())) 0) = [[9]]"
    by (simp add: ReadTransaction_def ex_defs)
  have 4: "map LogTopics (ex_logs (snd (spec_ReadTransaction ex_X 50 () ex_state (ex_header 10)
                                  (ex_msg 7 (Some 8) 0 None [], True) ())) 0) = [[0]]"
    by (simp add: spec_ReadTransaction_def spec_denied_def ex_defs)
  from 1 2 3 4 show ?thesis by auto
qed

text \<open>
  C8 fails on the code: above height 24642000 a sender that only the second deny-list
  rejects makes \<open>ApplyTransaction\<close> fail, and \<open>ReadTransaction\<close> executes the
  transaction, since it applies the first deny-list only.
\<close>

theorem ReadTransaction_skips_second_deny_list:
  "fst (ApplyTransaction ex_X 50 () 50000 ex_state (ex_header 25000000)
          (ex_msg 777 (Some 8) 0 None [], True) 0 0 ()) = Inl ''forbidden address 2'' \<and>
   fst (ReadTransaction ex_X 50 () ex_state (ex_header 25000000)
          (ex_msg 777 (Some 8) 0 None [], True) ()) = Inr ([], 21000)"
  by (simp add: ApplyTransaction_def ReadTransaction_def ex_defs)

text \<open>
  C9, as amended. The result of \<open>ReadTransaction\<close> does not depend on \<open>Finalise\<close>: it
  commits nothing itself. On an error of signature recovery, and on an error of its
  deny-list test, it returns the error and the state database it was given. Otherwise
  it returns what the executor returns, and the state database after the call is exactly
  the one the executor left; when that is the state database it was given, a second call
  on the state that the first call left returns what the first call returned.
\<close>

theorem ReadTransaction_frame:
  "ReadTransaction (X\<lparr>Finalise := f\<rparr>) c b s h tx cfg = ReadTransaction X c b s h tx cfg \<and>
   (\<forall>e. AsMessage X c (Number h) tx = Inl e \<longrightarrow>
      ReadTransaction X c b s h tx cfg = (Inl e, s)) \<and>
   (\<forall>msg e. AsMessage X c (Number h) tx = Inr msg \<and> 6638000 < Number h \<and>
      ForbidAddress X (From msg) = Some e \<longrightarrow>
      ReadTransaction X c b s h tx cfg = (Inl e, s)) \<and>
   (\<forall>msg res gp1 s1.
      AsMessage X c (Number h) tx = Inr msg \<and>
      (Number h \<le> 6638000 \<or> ForbidAddress X (From msg) = None) \<and>
      ApplyMessage X
        (NewEVM (NewEVMContext
           (NewMessage (From msg) (To msg) (Payment msg) 0 (Value msg) (Fee msg)
              (Gas msg) (GasPrice msg) (Data msg) False) h b) c cfg)
        msg MaxUint64 s = (res, gp1, s1) \<longrightarrow>
      ReadTransaction X c b s h tx cfg =
        (case res of Inl e \<Rightarrow> Inl e | Inr result \<Rightarrow> Inr (ReturnData result, UsedGas result), s1) \<and>
      (s1 = s \<longrightarrow>
         ReadTransaction X c b (snd (ReadTransaction X c b s h tx cfg)) h tx cfg
           = ReadTransaction X c b s h tx cfg))"
proof (intro conjI allI impI)
  show "ReadTransaction (X\<lparr>Finalise := f\<rparr>) c b s h tx cfg = ReadTransaction X c b s h tx cfg"
    by (rule ReadTransaction_Finalise)
next
  fix e assume "AsMessage X c (Number h) tx = Inl e"
  then show "ReadTransaction X c b s h tx cfg = (Inl e, s)"
    by (simp add: ReadTransaction_unfold)
next
  fix msg e
  assume "AsMessage X c (Number h) tx = Inr msg \<and> 6638000 < Number h \<and>
      ForbidAddress X (From msg) = Some e"
  then show "ReadTransaction X c b s h tx cfg = (Inl e, s)"
    by (simp add: ReadTransaction_unfold)
next
  fix msg res gp1 s1
  assume a: "AsMessage X c (Number h) tx = Inr msg \<and>
      (Number h \<le> 6638000 \<or> ForbidAddress X (From msg) = None) \<and>
      ApplyMessage X
        (NewEVM (NewEVMContext
           (NewMessage (From msg) (To msg) (Payment msg) 0 (Value msg) (Fee msg)
              (Gas msg) (GasPrice msg) (Data msg) False) h b) c cfg)
        msg MaxUint64 s = (res, gp1, s1)"
  then have g: "(if 6638000 < Number h then ForbidAddress X (From msg) else None) = None"
    by auto
  from a g show r: "ReadTransaction X c b s h tx cfg =
        (case res of Inl e \<Rightarrow> Inl e | Inr result \<Rightarrow> Inr (ReturnData result, UsedGas result), s1)"
    by (cases res) (simp_all add: ReadTransaction_unfold)
  assume "s1 = s"
  with r show "ReadTransaction X c b (snd (ReadTransaction X c b s h tx cfg)) h tx cfg
           = ReadTransaction X c b s h tx cfg"
    by simp
qed

theorem ReadTransaction_frame_witness:
  "ReadTransaction ex_X 50 () ex_state (ex_header 10) (ex_msg 7 (Some 8) 0 None [], False) ()
     = (Inl ''invalid sender'', ex_state) \<and>
   ReadTransaction ex_X 50 () ex_state (ex_header 7000000) (ex_msg 666 (Some 8) 0 None [], True) ()
     = (Inl ''forbidden address'', ex_state) \<and>
   ReadTransaction ex_X 50 () ex_state (ex_header 10) (ex_msg 7 (Some 8) 5 None [], True) ()
     = (Inl ''invalid nonce'', ex_state) \<and>
   ReadTransaction ex_X 50 ()
     (snd (ReadTransaction ex_X 50 () ex_state (ex_header 10)
             (ex_msg 7 (Some 8) 5 None [], True) ()))
     (ex_header 10) (ex_msg 7 (Some 8) 5 None [], True) ()
     = ReadTransaction ex_X 50 () ex_state (ex_header 10) (ex_msg 7 (Some 8) 5 None [], True) () \<and>
   fst (ReadTransaction ex_X 50 () ex_state (ex_header 10) (ex_msg 7 (Some 8) 0 None [], True) ())
     = Inr ([], 21000) \<and>
   ex_nonce (snd (ReadTransaction ex_X 50 () ex_state (ex_header 10)
                    (ex_msg 7 (Some 8) 0 None [], True) ())) 7 = 1"
proof (intro conjI)
  have "AsMessage ex_X 50 (Number (ex_header 10)) (ex_msg 7 (Some 8) 0 None [], False)
          = Inl ''invalid sender''"
    by (simp add: ex_defs)
  from ReadTransaction_frame[where X = ex_X and s = ex_state and b = "()" and cfg = "()",
      THEN conjunct2, THEN conjunct1, rule_format, OF this]
  show "ReadTransaction ex_X 50 () ex_state (ex_header 10) (ex_msg 7 (Some 8) 0 None [], False) ()
     = (Inl ''invalid sender'', ex_state)" .
next
  let ?m = "ex_msg 666 (Some 8) 0 None []"
  have "AsMessage ex_X 50 (Number (ex_header 7000000)) (?m, True) = Inr ?m \<and>
        6638000 < Number (ex_header 7000000) \<and>
        ForbidAddress ex_X (From ?m) = Some ''forbidden address''"
    by (simp add: ex_defs)
  from ReadTransaction_frame[where X = ex_X and s = ex_state and b = "()" and cfg = "()",
      THEN conjunct2, THEN conjunct2, THEN conjunct1, rule_format, OF this]
  show "ReadTransaction ex_X 50 () ex_state (ex_header 7000000) (?m, True) ()
     = (Inl ''forbidden address'', ex_state)" .
next
  let ?m = "ex_msg 7 (Some 8) 5 None []"
  have a: "AsMessage ex_X 50 (Number (ex_header 10)) (?m, True) = Inr ?m \<and>
        (Number (ex_header 10) \<le> 6638000 \<or> ForbidAddress ex_X (From ?m) = None) \<and>
        ApplyMessage ex_X
          (NewEVM (NewEVMContext
             (NewMessage (From ?m) (To ?m) (Payment ?m) 0 (Value ?m) (Fee ?m)
                (Gas ?m) (GasPrice ?m) (Data ?m) False) (ex_header 10) ()) 50 ())
          ?m MaxUint64 ex_state = (Inl ''invalid nonce'', MaxUint64, ex_state)"
    by (simp add: ex_defs)
  note T = ReadTransaction_frame[where X = ex_X and s = ex_state and b = "()" and cfg = "()",
      THEN conjunct2, THEN conjunct2, THEN conjunct2, rule_format, OF a]
  from T[THEN conjunct1]
  show "ReadTransaction ex_X 50 () ex_state (ex_header 10) (?m, True) ()
     = (Inl ''invalid nonce'', ex_state)" by simp
  from T[THEN conjunct2]
  show "ReadTransaction ex_X 50 ()
     (snd (ReadTransaction ex_X 50 () ex_state (ex_header 10) (?m, True) ()))
     (ex_header 10) (?m, True) ()
     = ReadTransaction ex_X 50 () ex_state (ex_header 10) (?m, True) ()" by simp
next
  let ?m = "ex_msg 7 (Some 8) 0 None []"
  have "\<exists>gp1 s1. ex_nonce s1 7 = 1 \<and> (AsMessage ex_X 50 (Number (ex_header 10)) (?m, True) = Inr ?m \<and>
        (Number (ex_header 10) \<le> 6638000 \<or> ForbidAddress ex_X (From ?m) = None) \<and>
        ApplyMessage ex_X
          (NewEVM (NewEVMContext
             (NewMessage (From ?m) (To ?m) (Payment ?m) 0 (Value ?m) (Fee ?m)
                (Gas ?m) (GasPrice ?m) (Data ?m) False) (ex_header 10) ()) 50 ())
          ?m MaxUint64 ex_state
          = (Inr \<lparr>UsedGas = 21000, Failed = False, ReturnData = []\<rparr>, gp1, s1))"
    by (simp add: ex_defs)
  then obtain gp1 s1 where n: "ex_nonce s1 7 = 1"
    and a: "AsMessage ex_X 50 (Number (ex_header 10)) (?m, True) = Inr ?m \<and>
        (Number (ex_header 10) \<le> 6638000 \<or> ForbidAddress ex_X (From ?m) = None) \<and>
        ApplyMessage ex_X
          (NewEVM (NewEVMContext
             (NewMessage (From ?m) (To ?m) (Payment ?m) 0 (Value ?m) (Fee ?m)
                (Gas ?m) (GasPrice ?m) (Data ?m) False) (ex_header 10) ()) 50 ())
          ?m MaxUint64 ex_state
          = (Inr \<lparr>UsedGas = 21000, Failed = False, ReturnData = []\<rparr>, gp1, s1)"
    by blast
  note T = ReadTransaction_frame[where X = ex_X and s = ex_state and b = "()" and cfg = "()",
      THEN conjunct2, THEN conjunct2, THEN conjunct2, rule_format, OF a, THEN conjunct1]
  from T show "fst (ReadTransaction ex_X 50 () ex_state (ex_header 10) (?m, True) ())
     = Inr ([], 21000)" by simp
  from T n show "ex_nonce (snd (ReadTransaction ex_X 50 () ex_state (ex_header 10)
                    (?m, True) ())) 7 = 1" by simp
qed

text \<open>
  C9, as stated, fails: with an executor that never looks at the message's nonce, returns
  the sender's account nonce as its output and increments it, the nonce change persists
  in the state after \<open>ReadTransaction\<close>, and a second call on that state returns another
  result than the first. The same holds when the reconstruction is the message that is
  executed.
\<close>

theorem ReadTransaction_not_repeatable:
  "fst (ReadTransaction ex_reading_X 50 () ex_state (ex_header 10)
          (ex_msg 7 (Some 8) 0 None [], True) ()) = Inr ([0], 21000) \<and>
   ex_nonce ex_state 7 = 0 \<and>
   ex_nonce (snd (ReadTransaction ex_reading_X 50 () ex_state (ex_header 10)
                    (ex_msg 7 (Some 8) 0 None [], True) ())) 7 = 1 \<and>
   fst (ReadTransaction ex_reading_X 50 ()
          (snd (ReadTransaction ex_reading_X 50 () ex_state (ex_header 10)
                  (ex_msg 7 (Some 8) 0 None [], True) ()))
          (ex_header 10) (ex_msg 7 (Some 8) 0 None [], True) ()) = Inr ([1], 21000) \<and>
   fst (spec_ReadTransaction ex_reading_X 50 ()
          (snd (spec_ReadTransaction ex_reading_X 50 () ex_state (ex_header 10)
                  (ex_msg 7 (Some 8) 0 None [], True) ()))
          (ex_header 10) (ex_msg 7 (Some 8) 0 None [], True) ()) = Inr ([1], 21000)"
  by (simp add: ReadTransaction_def spec_ReadTransaction_def spec_denied_def
        ex_reading_X_def ex_reading_ApplyMessage_def ex_defs)

end
